theory Spec2Isabelle
  imports Complex_Main "HOL-Library.Sublist" "HOL-Library.Char_ord"
begin

section \<open>WebRx expression compiler and object-literal tokenizer\<close>

text \<open>
  A shallow embedding of the module \<^verbatim>\<open>wx.compiler\<close> (the object-literal parser ported
  from Knockout and the expression compiler ported from Angular).

  Conventions of the embedding.
  \<^item> A JavaScript string is a \<^typ>\<open>string\<close>; a code unit is a \<^typ>\<open>char\<close>, so only code
    units below 256 are covered.
  \<^item> An object of a scope is the finite map of its own properties; members inherited from
    a prototype are not part of it. The dictionaries of the module itself are modelled
    with what JavaScript does for an object literal: \<^verbatim>\<open>keywordRegexLookBehind\<close> and the
    cache of \<^verbatim>\<open>compileExpression\<close> are read with their inherited members, the getter cache
    is filled by an assignment that adds no entry under \<^verbatim>\<open>__proto__\<close>.
  \<^item> An exception is a value of type \<open>error\<close>, returned as \<open>Inl\<close>.
\<close>

subsection \<open>Errors\<close>

text \<open>
  \<^verbatim>\<open>$parseMinErr(module, message, args...)\<close> substitutes the arguments into the message
  and throws \<^verbatim>\<open>new SyntaxError(message)\<close>: the module tag is its first parameter and is
  not part of the thrown object. \<open>TypeError\<close> is what the language itself (or
  \<^verbatim>\<open>compileExpression\<close>) throws.
\<close>

datatype error = SyntaxError string | TypeError string

subsection \<open>The object-literal tokenizer\<close>

text \<open>Object-literal token: \<^verbatim>\<open>{ key, value }\<close> or \<^verbatim>\<open>{ unknown, value: undefined }\<close>.\<close>

datatype ObjectLiteralToken = KeyValue string string | Unknown string

text \<open>The character class \<^verbatim>\<open>\s\<close> of a regular expression, and what \<^verbatim>\<open>trim\<close> strips.\<close>

definition isSpace :: "char \<Rightarrow> bool" where
  "isSpace c = (c = CHR 0x09 \<or> c = CHR 0x0A \<or> c = CHR 0x0B \<or> c = CHR 0x0C \<or> c = CHR 0x0D
     \<or> c = CHR 0x20 \<or> c = CHR 0xA0)"

text \<open>The dot of a regular expression matches every character but a line terminator.\<close>

definition isLineTerminator :: "char \<Rightarrow> bool" where
  "isLineTerminator c = (c = CHR 0x0A \<or> c = CHR 0x0D)"

definition trim :: "string \<Rightarrow> string" where
  "trim s = rev (dropWhile isSpace (rev (dropWhile isSpace s)))"

text \<open>
  \<^verbatim>\<open>specials = ',"\'{}()/:[\\]'\<close>: inside a character class the backslash escapes the
  closing bracket, so the class holds these eleven characters.
\<close>

definition specials :: "string" where
  "specials = [CHR '','', CHR 0x22, CHR 0x27, CHR ''{'', CHR ''}'', CHR ''('', CHR '')'',
     CHR ''/'', CHR '':'', CHR ''['', CHR '']'']"

definition isSpecial :: "char \<Rightarrow> bool" where
  "isSpecial c = (c \<in> set specials)"

text \<open>
  The body of \<^verbatim>\<open>stringDouble\<close>, \<^verbatim>\<open>stringSingle\<close> and \<^verbatim>\<open>stringRegexp\<close> after the opening
  delimiter \<open>q\<close>: \<^verbatim>\<open>(?:[^q\\]|\\.)*q\<close>. The result is the number of characters
  matched, the closing delimiter included. The two alternatives start with different
  characters and no iteration starts with \<open>q\<close>, so backtracking finds no other match.
\<close>

fun scanDelimited :: "char \<Rightarrow> string \<Rightarrow> nat option" where
  "scanDelimited q [] = None"
| "scanDelimited q [c] = (if c = q then Some 1 else None)"
| "scanDelimited q (c # d # cs) =
     (if c = q then Some 1
      else if c = CHR 0x5C then
        (if isLineTerminator d then None else map_option (\<lambda>n. n + 2) (scanDelimited q cs))
      else map_option Suc (scanDelimited q (d # cs)))"

text \<open>
  \<^verbatim>\<open>stringRegexp = '/(?:[^/\\\\]|\\\\.)*/\w*'\<close>: in the string literal \<^verbatim>\<open>\w\<close> is the
  letter w, so the expression ends with \<^verbatim>\<open>w*\<close>.
\<close>

definition matchRegexp :: "string \<Rightarrow> nat option" where
  "matchRegexp s = (case s of [] \<Rightarrow> None | c # cs \<Rightarrow>
     if c = CHR ''/'' then
       (case scanDelimited CHR ''/'' cs of None \<Rightarrow> None
        | Some n \<Rightarrow> Some (1 + n + length (takeWhile (\<lambda>x. x = CHR ''w'') (drop n cs))))
     else None)"

definition matchQuoted :: "char \<Rightarrow> string \<Rightarrow> nat option" where
  "matchQuoted q s = (case s of [] \<Rightarrow> None | c # cs \<Rightarrow>
     if c = q then map_option Suc (scanDelimited q cs) else None)"

text \<open>
  \<^verbatim>\<open>everyThingElse = [^\s:,/][^specials]*[^\s specials]\<close>: a first character, the longest
  run without a special character, given back up to its last character that is not a
  space.
\<close>

definition matchEveryThingElse :: "string \<Rightarrow> nat option" where
  "matchEveryThingElse s = (case s of [] \<Rightarrow> None | c # cs \<Rightarrow>
     if isSpace c \<or> c = CHR '':'' \<or> c = CHR '','' \<or> c = CHR ''/'' then None
     else (let run = takeWhile (\<lambda>x. \<not> isSpecial x) cs;
               kept = rev (dropWhile isSpace (rev run))
           in if kept = [] then None else Some (1 + length kept)))"

definition matchOneNotSpace :: "string \<Rightarrow> nat option" where
  "matchOneNotSpace s = (case s of [] \<Rightarrow> None | c # cs \<Rightarrow> if isSpace c then None else Some 1)"

text \<open>\<^verbatim>\<open>bindingToken\<close> at the start of \<open>s\<close>: the alternatives in their order.\<close>

definition orElse :: "'a option \<Rightarrow> 'a option \<Rightarrow> 'a option" where
  "orElse a b = (case a of Some x \<Rightarrow> Some x | None \<Rightarrow> b)"

definition bindingToken :: "string \<Rightarrow> nat option" where
  "bindingToken s =
     orElse (matchQuoted CHR 0x22 s)
    (orElse (matchQuoted CHR 0x27 s)
    (orElse (matchRegexp s)
    (orElse (matchEveryThingElse s)
            (matchOneNotSpace s))))"

lemma scanDelimited_pos: "scanDelimited q s = Some n \<Longrightarrow> 0 < n"
  by (induction q s arbitrary: n rule: scanDelimited.induct) (auto split: if_splits)

lemma bindingToken_pos: "bindingToken s = Some n \<Longrightarrow> 0 < n"
  by (auto simp: bindingToken_def orElse_def matchQuoted_def matchRegexp_def
      matchEveryThingElse_def matchOneNotSpace_def Let_def
      split: option.splits list.splits if_splits)

text \<open>\<^verbatim>\<open>str.match(bindingToken)\<close> with the global flag: all matches, left to right.\<close>

function matchAll :: "string \<Rightarrow> string list" where
  "matchAll [] = []"
| "matchAll (c # cs) =
     (case bindingToken (c # cs) of
        None \<Rightarrow> matchAll cs
      | Some n \<Rightarrow> take n (c # cs) # matchAll (drop n (c # cs)))"
  by pat_completeness auto
termination
  by (relation "measure length") (auto dest: bindingToken_pos)

text \<open>The result of \<^verbatim>\<open>match\<close> is \<^verbatim>\<open>null\<close> when nothing matches.\<close>

definition strMatch :: "string \<Rightarrow> string list option" where
  "strMatch s = (case matchAll s of [] \<Rightarrow> None | ts \<Rightarrow> Some ts)"

text \<open>
  \<^verbatim>\<open>divisionLookBehind = /[\])"'A-Za-z0-9_$]+$/\<close>: the longest suffix of the previous
  token made of these characters; no match when it is empty.
\<close>

definition isLookBehindChar :: "char \<Rightarrow> bool" where
  "isLookBehindChar c = (c = CHR '']'' \<or> c = CHR '')'' \<or> c = CHR 0x22 \<or> c = CHR 0x27
     \<or> (CHR ''A'' \<le> c \<and> c \<le> CHR ''Z'') \<or> (CHR ''a'' \<le> c \<and> c \<le> CHR ''z'')
     \<or> (CHR ''0'' \<le> c \<and> c \<le> CHR ''9'') \<or> c = CHR ''_'' \<or> c = CHR ''$'')"

definition divisionLookBehind :: "string \<Rightarrow> string option" where
  "divisionLookBehind s =
     (let m = rev (takeWhile isLookBehindChar (rev s)) in if m = [] then None else Some m)"

definition keywordRegexLookBehind :: "string \<rightharpoonup> nat" where
  "keywordRegexLookBehind = [''in'' \<mapsto> 1, ''return'' \<mapsto> 1, ''typeof'' \<mapsto> 1]"

text \<open>
  The table is an object literal, so \<^verbatim>\<open>keywordRegexLookBehind[k]\<close> also finds what the table
  inherits from \<^verbatim>\<open>Object.prototype\<close>: the members of ECMAScript 5.1 (15.2.4) and the legacy
  accessors that the engines add. Each of them is an object, so truthy.
\<close>

definition objectPrototypeKeys :: "string list" where
  "objectPrototypeKeys =
     [''constructor'', ''toString'', ''toLocaleString'', ''valueOf'', ''hasOwnProperty'',
      ''isPrototypeOf'', ''propertyIsEnumerable'', ''__proto__'', ''__defineGetter__'',
      ''__defineSetter__'', ''__lookupGetter__'', ''__lookupSetter__'']"

text \<open>
  The test of the source, \<^verbatim>\<open>match && !keywordRegexLookBehind[match[0]]\<close>, on the previous
  token.
\<close>

definition slashIsDivision :: "string \<Rightarrow> bool" where
  "slashIsDivision prev =
     (case divisionLookBehind prev of
        None \<Rightarrow> False
      | Some m \<Rightarrow>
          (case keywordRegexLookBehind m of
             None \<Rightarrow> m \<notin> set objectPrototypeKeys
           | Some v \<Rightarrow> v = 0))"

text \<open>\<^verbatim>\<open>str.indexOf(tok)\<close>: the first occurrence, \<open>None\<close> for \<open>-1\<close>.\<close>

fun indexOf :: "string \<Rightarrow> string \<Rightarrow> nat option" where
  "indexOf [] t = (if t = [] then Some 0 else None)"
| "indexOf (c # cs) t =
     (if prefix t (c # cs) then Some 0 else map_option Suc (indexOf cs t))"

text \<open>\<^verbatim>\<open>str.substr(str.indexOf(tok) + 1)\<close>.\<close>

definition afterSlash :: "string \<Rightarrow> string \<Rightarrow> string" where
  "afterSlash str tok = (case indexOf str tok of None \<Rightarrow> str | Some i \<Rightarrow> drop (i + 1) str)"

text \<open>\<^verbatim>\<open>if (values) values.push(tok); else values = [tok];\<close>\<close>

definition pushValue :: "string list option \<Rightarrow> string \<Rightarrow> string list option" where
  "pushValue values tok = (case values of None \<Rightarrow> Some [tok] | Some vs \<Rightarrow> Some (vs @ [tok]))"

text \<open>
  The variables of the loop of \<^verbatim>\<open>parseObjectLiteral\<close>. \<open>l_prev\<close> is \<^verbatim>\<open>toks[i - 1]\<close>
  (\<open>None\<close> when \<^verbatim>\<open>i\<close> is 0) and \<open>l_toks\<close> is \<^verbatim>\<open>toks\<close> from index \<^verbatim>\<open>i\<close> on. \<open>l_key\<close> is
  falsy when it is the empty string (or still unset, or reset to 0), \<open>l_values\<close> is
  falsy when it is \<open>None\<close>.
\<close>

record loopVars =
  l_str :: string
  l_prev :: "string option"
  l_toks :: "string list"
  l_key :: string
  l_values :: "string list option"
  l_depth :: int
  l_result :: "ObjectLiteralToken list"

text \<open>
  One pass through the body of the loop, for the token \<open>tok\<close> at index \<^verbatim>\<open>i\<close>, followed
  by the tokens \<open>rest\<close>. Every branch ends with \<^verbatim>\<open>++i\<close>: the token becomes the previous
  one, except after a new split of the string, where \<^verbatim>\<open>i\<close> restarts at 0.
\<close>

definition tokenStep :: "loopVars \<Rightarrow> string \<Rightarrow> string list \<Rightarrow> error + loopVars" where
  "tokenStep v tok rest =
     (let c = hd tok;
          next = v\<lparr>l_prev := Some tok, l_toks := rest\<rparr>;
          push = next\<lparr>l_values := pushValue (l_values v) tok\<rparr>
      in
      if c = CHR '','' \<and> l_depth v \<le> 0 then
        Inr (next\<lparr>l_key := [], l_values := None, l_depth := 0,
          l_result :=
            (if l_key v \<noteq> [] then
               l_result v @ [case l_values v of Some vs \<Rightarrow> KeyValue (l_key v) (concat vs)
                                               | None \<Rightarrow> Unknown (l_key v)]
             else l_result v)\<rparr>)
      else if c = CHR '','' then Inr push
      else if c = CHR '':'' then (if l_values v = None then Inr next else Inr push)
      else if c = CHR ''/'' \<and> l_prev v \<noteq> None \<and> length tok > 1 then
        (if slashIsDivision (the (l_prev v)) then
           (let str' = afterSlash (l_str v) tok in
            case strMatch str' of
              None \<Rightarrow> Inl (TypeError ''Cannot read property 'push' of null'')
            | Some toks' \<Rightarrow>
                Inr (v\<lparr>l_str := str', l_prev := None, l_toks := toks' @ ['',''],
                       l_values := pushValue (l_values v) ''/''\<rparr>))
         else Inr push)
      else if c = CHR ''('' \<or> c = CHR ''{'' \<or> c = CHR ''['' then
        Inr (push\<lparr>l_depth := l_depth v + 1\<rparr>)
      else if c = CHR '')'' \<or> c = CHR ''}'' \<or> c = CHR '']'' then
        Inr (push\<lparr>l_depth := l_depth v - 1\<rparr>)
      else if l_key v = [] \<and> l_values v = None then
        Inr (next\<lparr>l_key := (if c = CHR 0x22 \<or> c = CHR 0x27 then butlast (tl tok) else tok)\<rparr>)
      else Inr push)"

text \<open>
  The loop runs while \<^verbatim>\<open>toks[i]\<close> is truthy. It need not end when \<^verbatim>\<open>indexOf\<close> finds
  nothing, so not returning is the value \<open>None\<close>.
\<close>

partial_function (option) tokenLoop :: "loopVars \<Rightarrow> (error + ObjectLiteralToken list) option" where
  "tokenLoop v =
     (case l_toks v of
        [] \<Rightarrow> Some (Inr (l_result v))
      | tok # rest \<Rightarrow>
          if tok = [] then Some (Inr (l_result v))
          else (case tokenStep v tok rest of
                  Inl e \<Rightarrow> Some (Inl e)
                | Inr v' \<Rightarrow> tokenLoop v'))"

declare tokenLoop.simps [code]

definition parseObjectLiteral :: "string \<Rightarrow> (error + ObjectLiteralToken list) option" where
  "parseObjectLiteral objectLiteralString =
     (let str0 = trim objectLiteralString;
          str = (if str0 \<noteq> [] \<and> hd str0 = CHR ''{'' then butlast (tl str0) else str0)
      in case strMatch str of
           None \<Rightarrow> Some (Inr [])
         | Some toks \<Rightarrow>
             tokenLoop \<lparr>l_str = str, l_prev = None, l_toks = toks @ ['',''], l_key = [],
               l_values = None, l_depth = 0, l_result = []\<rparr>)"

subsection \<open>Values, objects and the state of an evaluation\<close>

text \<open>
  A value of the host language. \<open>Num x\<close> is the number whose exact value is \<open>x\<close>, \<open>NaN\<close>
  is not-a-number. \<open>Obj a\<close> is a reference to a plain object, \<open>Fun a\<close> a reference to a
  function object; the properties of both are in the heap at address \<open>a\<close>.
\<close>

type_synonym addr = nat

datatype val = Undefined | Null | Bool bool | Num real | NaN | Str string | Obj addr | Fun addr

type_synonym obj = "string \<rightharpoonup> val"

text \<open>
  The state of an evaluation: the heap (an address is an index, so a new object is always
  fresh), and the calls of host functions made so far, each with the function, its
  \<^verbatim>\<open>this\<close> and its arguments.
\<close>

record state =
  heap :: "obj list"
  calls :: "(val \<times> val \<times> val list) list"

text \<open>
  What the compiler uses of the host language and does not define: the functions that
  scopes, filters and hooks hold (\<open>call\<close> runs the function at an address on the heap),
  the binary operators where they convert their operands or round (\<open>binop\<close>), and the
  conversions between numbers and strings.
\<close>

record host =
  call :: "addr \<Rightarrow> val \<Rightarrow> val list \<Rightarrow> obj list \<Rightarrow> (error + val) \<times> obj list"
  binop :: "string \<Rightarrow> val \<Rightarrow> val \<Rightarrow> obj list \<Rightarrow> (error + val) \<times> obj list"
  toNumber :: "string \<Rightarrow> val"
  toString :: "val \<Rightarrow> string"

text \<open>A computation that reads and changes the state and returns a value or throws.\<close>

type_synonym 'a M = "state \<Rightarrow> (error + 'a) \<times> state"

definition ret :: "'a \<Rightarrow> 'a M" where
  "ret x = (\<lambda>s. (Inr x, s))"

definition throw :: "error \<Rightarrow> 'a M" where
  "throw e = (\<lambda>s. (Inl e, s))"

definition bnd :: "'a M \<Rightarrow> ('a \<Rightarrow> 'b M) \<Rightarrow> 'b M" where
  "bnd m f = (\<lambda>s. case m s of (Inl e, s') \<Rightarrow> (Inl e, s') | (Inr x, s') \<Rightarrow> f x s')"

text \<open>A compile-time result that may be an error (no state involved).\<close>

definition bndE :: "error + 'a \<Rightarrow> ('a \<Rightarrow> error + 'b) \<Rightarrow> error + 'b" where
  "bndE r f = (case r of Inl e \<Rightarrow> Inl e | Inr x \<Rightarrow> f x)"

definition liftE :: "error + 'a \<Rightarrow> 'a M" where
  "liftE r = (case r of Inl e \<Rightarrow> throw e | Inr x \<Rightarrow> ret x)"

text \<open>\<^verbatim>\<open>if (v)\<close>, \<^verbatim>\<open>typeof v !== "undefined"\<close>, \<^verbatim>\<open>v == null\<close>, \<^verbatim>\<open>a === b\<close> and \<^verbatim>\<open>typeof v\<close>.\<close>

fun truthy :: "val \<Rightarrow> bool" where
  "truthy Undefined = False"
| "truthy Null = False"
| "truthy (Bool b) = b"
| "truthy (Num x) = (x \<noteq> 0)"
| "truthy NaN = False"
| "truthy (Str s) = (s \<noteq> [])"
| "truthy (Obj a) = True"
| "truthy (Fun a) = True"

definition isDefined :: "val \<Rightarrow> bool" where
  "isDefined value = (value \<noteq> Undefined)"

definition isNullish :: "val \<Rightarrow> bool" where
  "isNullish v = (v = Undefined \<or> v = Null)"

definition strictEq :: "val \<Rightarrow> val \<Rightarrow> bool" where
  "strictEq a b = (a \<noteq> NaN \<and> a = b)"

fun typeOf :: "val \<Rightarrow> string" where
  "typeOf Undefined = ''undefined''"
| "typeOf Null = ''object''"
| "typeOf (Bool b) = ''boolean''"
| "typeOf (Num x) = ''number''"
| "typeOf NaN = ''number''"
| "typeOf (Str s) = ''string''"
| "typeOf (Obj a) = ''object''"
| "typeOf (Fun a) = ''function''"

text \<open>A natural number as decimal text.\<close>

fun showNat :: "nat \<Rightarrow> string" where
  "showNat n = (if n < 10 then [char_of (48 + n)] else showNat (n div 10) @ [char_of (48 + n mod 10)])"

declare showNat.simps [simp del]

text \<open>
  The own properties of a value: those of the object on the heap; for a string its
  \<^verbatim>\<open>length\<close> and its characters under their indices; none for the other values. \<open>field\<close>
  is the own property \<open>k\<close> of a value, \<^verbatim>\<open>undefined\<close> when it has none.
\<close>

definition objectAt :: "state \<Rightarrow> addr \<Rightarrow> obj" where
  "objectAt s a = (if a < length (heap s) then heap s ! a else Map.empty)"

definition stringProps :: "string \<Rightarrow> obj" where
  "stringProps t =
     (\<lambda>k. if k = ''length'' then Some (Num (real (length t)))
          else (case filter (\<lambda>i. showNat i = k) [0 ..< length t] of
                  i # _ \<Rightarrow> Some (Str [t ! i])
                | [] \<Rightarrow> None))"

definition ownProps :: "state \<Rightarrow> val \<Rightarrow> obj" where
  "ownProps s v =
     (case v of
        Obj a \<Rightarrow> objectAt s a
      | Fun a \<Rightarrow> objectAt s a
      | Str t \<Rightarrow> stringProps t
      | _ \<Rightarrow> Map.empty)"

definition field :: "state \<Rightarrow> val \<Rightarrow> string \<Rightarrow> val" where
  "field s v k = (case ownProps s v k of Some x \<Rightarrow> x | None \<Rightarrow> Undefined)"

text \<open>\<^verbatim>\<open>v[k]\<close>: reading a property of \<^verbatim>\<open>undefined\<close> or \<^verbatim>\<open>null\<close> throws.\<close>

definition getProp :: "val \<Rightarrow> string \<Rightarrow> val M" where
  "getProp v k = (\<lambda>s.
     if isNullish v then (Inl (TypeError ''Cannot read property of undefined or null''), s)
     else (Inr (field s v k), s))"

text \<open>
  \<^verbatim>\<open>v[k] = x\<close> in strict mode (the module is strict): only an object takes the property.
\<close>

definition setProp :: "val \<Rightarrow> string \<Rightarrow> val \<Rightarrow> unit M" where
  "setProp v k x = (\<lambda>s.
     case v of
       Obj a \<Rightarrow> (Inr (), s\<lparr>heap := (heap s)[a := (objectAt s a)(k \<mapsto> x)]\<rparr>)
     | Fun a \<Rightarrow> (Inr (), s\<lparr>heap := (heap s)[a := (objectAt s a)(k \<mapsto> x)]\<rparr>)
     | _ \<Rightarrow> (Inl (TypeError ''Cannot set property''), s))"

text \<open>\<^verbatim>\<open>locals && locals.hasOwnProperty(key)\<close> as a condition.\<close>

definition hasOwnProperty :: "state \<Rightarrow> val \<Rightarrow> string \<Rightarrow> bool" where
  "hasOwnProperty s v k = (ownProps s v k \<noteq> None)"

text \<open>A new object \<^verbatim>\<open>{}\<close> with the given properties.\<close>

definition newObject :: "obj \<Rightarrow> val M" where
  "newObject ps = (\<lambda>s. (Inr (Obj (length (heap s))), s\<lparr>heap := heap s @ [ps]\<rparr>))"

text \<open>
  \<^verbatim>\<open>f.apply(this, args)\<close> and \<^verbatim>\<open>this.f(args)\<close>: the call is recorded, then the host runs the
  function. A value that is not a function cannot be called.
\<close>

definition invoke :: "host \<Rightarrow> val \<Rightarrow> val \<Rightarrow> val list \<Rightarrow> val M" where
  "invoke h f this args = (\<lambda>s.
     case f of
       Fun a \<Rightarrow> (case call h a this args (heap s) of
                   (r, hp) \<Rightarrow> (r, s\<lparr>heap := hp, calls := calls s @ [(f, this, args)]\<rparr>))
     | _ \<Rightarrow> (Inl (TypeError ''not a function''), s))"

text \<open>
  A binary operator of the host language on two values. The model computes it where no
  conversion and no rounding is involved: \<^verbatim>\<open>+\<close>, \<^verbatim>\<open>-\<close> and \<^verbatim>\<open>*\<close> on integers that stay
  within the safe range, the comparison of two numbers, the concatenation of two strings.
  Everything else is the host's.
\<close>

definition isSafeInteger :: "real \<Rightarrow> bool" where
  "isSafeInteger x = (of_int \<lfloor>x\<rfloor> = x \<and> \<bar>x\<bar> \<le> 9007199254740991)"

definition hostBinop :: "host \<Rightarrow> string \<Rightarrow> val \<Rightarrow> val \<Rightarrow> val M" where
  "hostBinop h op a b = (\<lambda>s. case binop h op a b (heap s) of (r, hp) \<Rightarrow> (r, s\<lparr>heap := hp\<rparr>))"

definition exactArith :: "string \<Rightarrow> real \<Rightarrow> real \<Rightarrow> real option" where
  "exactArith op x y =
     (if op = ''+'' then Some (x + y) else if op = ''-'' then Some (x - y)
      else if op = ''*'' then Some (x * y) else None)"

definition compareNum :: "string \<Rightarrow> real \<Rightarrow> real \<Rightarrow> bool option" where
  "compareNum op x y =
     (if op = ''<'' then Some (x < y) else if op = ''>'' then Some (x > y)
      else if op = ''<='' then Some (x \<le> y) else if op = ''>='' then Some (x \<ge> y) else None)"

definition jsBinop :: "host \<Rightarrow> string \<Rightarrow> val \<Rightarrow> val \<Rightarrow> val M" where
  "jsBinop h op a b =
     (case (a, b) of
        (Num x, Num y) \<Rightarrow>
          (case compareNum op x y of
             Some r \<Rightarrow> ret (Bool r)
           | None \<Rightarrow>
              (case exactArith op x y of
                 Some r \<Rightarrow>
                   if isSafeInteger x \<and> isSafeInteger y \<and> isSafeInteger r then ret (Num r)
                   else hostBinop h op a b
               | None \<Rightarrow> hostBinop h op a b))
      | (Str s, Str t) \<Rightarrow> if op = ''+'' then ret (Str (s @ t)) else hostBinop h op a b
      | _ \<Rightarrow> hostBinop h op a b)"


subsection \<open>Error messages\<close>

definition isDigit :: "char \<Rightarrow> bool" where
  "isDigit c = (CHR ''0'' \<le> c \<and> c \<le> CHR ''9'')"

definition digitValue :: "char \<Rightarrow> nat" where
  "digitValue c = of_char c - 48"

text \<open>
  \<^verbatim>\<open>message.replace(/{(\d)}/g, ...)\<close>: each \<^verbatim>\<open>{n}\<close> becomes the \<open>n\<close>-th argument after the
  message, or the text \<^verbatim>\<open>undefined\<close> when there is none. The arguments are given as the
  strings they convert to.
\<close>

fun substArgs :: "string \<Rightarrow> string list \<Rightarrow> string" where
  "substArgs (a # b # c # rest) args =
     (if a = CHR ''{'' \<and> isDigit b \<and> c = CHR ''}'' then
        (if digitValue b < length args then args ! digitValue b else ''undefined'')
          @ substArgs rest args
      else a # substArgs (b # c # rest) args)"
| "substArgs s args = s"

definition parseMinErr :: "string \<Rightarrow> string \<Rightarrow> string list \<Rightarrow> error" where
  "parseMinErr moduleTag message args = SyntaxError (substArgs message args)"

subsection \<open>The sandbox guard\<close>

text \<open>
  A member name is a string or \<^verbatim>\<open>undefined\<close> (a key past the end of a path). As a property
  key \<^verbatim>\<open>undefined\<close> is the text \<^verbatim>\<open>undefined\<close>; as a condition, \<^verbatim>\<open>undefined\<close> and the empty
  string are falsy.
\<close>

definition keyName :: "string option \<Rightarrow> string" where
  "keyName k = (case k of Some n \<Rightarrow> n | None \<Rightarrow> ''undefined'')"

definition keyVal :: "string option \<Rightarrow> val" where
  "keyVal k = (case k of Some n \<Rightarrow> Str n | None \<Rightarrow> Undefined)"

definition keyTruthy :: "string option \<Rightarrow> bool" where
  "keyTruthy k = (k \<noteq> None \<and> k \<noteq> Some [])"

definition ensureSafeMemberName :: "string option \<Rightarrow> string \<Rightarrow> error + string option" where
  "ensureSafeMemberName name fullExpression =
     (if name = Some ''constructor'' then
        Inl (parseMinErr ''isecfld''
          (''Referencing '' @ [CHR 0x22] @ ''constructor'' @ [CHR 0x22]
             @ '' field in WebRx expressions is disallowed! Expression: {0}'')
          [fullExpression])
      else Inr name)"

definition ensureSafeObject :: "val \<Rightarrow> string \<Rightarrow> val M" where
  "ensureSafeObject obj fullExpression = (\<lambda>s.
     if truthy obj then
       if strictEq (field s obj ''constructor'') obj then
         (Inl (parseMinErr ''isecfn''
            ''Referencing Function in WebRx expressions is disallowed! Expression: {0}''
            [fullExpression]), s)
       else if truthy (field s obj ''document'') \<and> truthy (field s obj ''location'')
            \<and> truthy (field s obj ''alert'') \<and> truthy (field s obj ''setInterval'') then
         (Inl (parseMinErr ''isecwindow''
            ''Referencing the Window in WebRx expressions is disallowed! Expression: {0}''
            [fullExpression]), s)
       else if truthy (field s obj ''children'')
            \<and> (truthy (field s obj ''nodeName'')
               \<or> (truthy (field s obj ''prop'') \<and> truthy (field s obj ''attr'')
                  \<and> truthy (field s obj ''find''))) then
         (Inl (parseMinErr ''isecdom''
            ''Referencing DOM nodes in WebRx expressions is disallowed! Expression: {0}''
            [fullExpression]), s)
       else (Inr obj, s)
     else (Inr obj, s))"

subsection \<open>The operator table\<close>

text \<open>
  A function of the compiler takes \<^verbatim>\<open>(self, locals, a, b)\<close>. The third and fourth argument
  are absent, a value (the context of a call), a compiled sub-expression, or the function
  that \<^verbatim>\<open>filter()\<close> builds, which returns the filter's invoker.
\<close>

datatype jsarg =
    ArgNone
  | ArgVal val
  | ArgFn "val \<Rightarrow> val \<Rightarrow> val M"
  | ArgFilter "val \<Rightarrow> val \<Rightarrow> val \<Rightarrow> val M"

type_synonym jsfun = "val \<Rightarrow> val \<Rightarrow> jsarg \<Rightarrow> jsarg \<Rightarrow> val M"

text \<open>\<^verbatim>\<open>a(self, locals)\<close> for an argument \<^verbatim>\<open>a\<close>.\<close>

definition callArg :: "host \<Rightarrow> jsarg \<Rightarrow> val \<Rightarrow> val \<Rightarrow> val M" where
  "callArg h a self locals =
     (case a of
        ArgFn f \<Rightarrow> f self locals
      | ArgVal v \<Rightarrow> invoke h v Undefined [self, locals]
      | ArgFilter f \<Rightarrow> throw (TypeError ''a function is not a value of the model'')
      | ArgNone \<Rightarrow> throw (TypeError ''undefined is not a function''))"

definition noop :: jsfun where
  "noop = (\<lambda>self locals a b. ret Undefined)"

definition opConst :: "val \<Rightarrow> jsfun" where
  "opConst v = (\<lambda>self locals a b. ret v)"

definition opPlus :: "host \<Rightarrow> jsfun" where
  "opPlus h = (\<lambda>self locals a b.
     bnd (callArg h a self locals) (\<lambda>a.
     bnd (callArg h b self locals) (\<lambda>b.
       if isDefined a then
         (if isDefined b then jsBinop h ''+'' a b else ret a)
       else ret (if isDefined b then b else Undefined))))"

definition opMinus :: "host \<Rightarrow> jsfun" where
  "opMinus h = (\<lambda>self locals a b.
     bnd (callArg h a self locals) (\<lambda>a.
     bnd (callArg h b self locals) (\<lambda>b.
       jsBinop h ''-'' (if isDefined a then a else Num 0) (if isDefined b then b else Num 0))))"

definition opBinary :: "host \<Rightarrow> string \<Rightarrow> jsfun" where
  "opBinary h op = (\<lambda>self locals a b.
     bnd (callArg h a self locals) (\<lambda>x.
     bnd (callArg h b self locals) (\<lambda>y. jsBinop h op x y)))"

definition opStrictEq :: "host \<Rightarrow> jsfun" where
  "opStrictEq h = (\<lambda>self locals a b.
     bnd (callArg h a self locals) (\<lambda>x.
     bnd (callArg h b self locals) (\<lambda>y. ret (Bool (strictEq x y)))))"

definition opStrictNe :: "host \<Rightarrow> jsfun" where
  "opStrictNe h = (\<lambda>self locals a b.
     bnd (callArg h a self locals) (\<lambda>x.
     bnd (callArg h b self locals) (\<lambda>y. ret (Bool (\<not> strictEq x y)))))"

definition opAnd :: "host \<Rightarrow> jsfun" where
  "opAnd h = (\<lambda>self locals a b.
     bnd (callArg h a self locals) (\<lambda>x. if truthy x then callArg h b self locals else ret x))"

definition opOr :: "host \<Rightarrow> jsfun" where
  "opOr h = (\<lambda>self locals a b.
     bnd (callArg h a self locals) (\<lambda>x. if truthy x then ret x else callArg h b self locals))"

text \<open>
  \<^verbatim>\<open>b(self, locals)(self, locals, a(self, locals))\<close>: \<^verbatim>\<open>b\<close> returns the function to call,
  then \<^verbatim>\<open>a\<close> is evaluated, then the function is called.
\<close>

definition opPipe :: "host \<Rightarrow> jsfun" where
  "opPipe h = (\<lambda>self locals a b.
     case b of
       ArgFilter fnInvoke \<Rightarrow> bnd (callArg h a self locals) (\<lambda>input. fnInvoke self locals input)
     | _ \<Rightarrow> bnd (callArg h b self locals) (\<lambda>f.
             bnd (callArg h a self locals) (\<lambda>input. invoke h f Undefined [self, locals, input])))"

definition opNot :: "host \<Rightarrow> jsfun" where
  "opNot h = (\<lambda>self locals a b. bnd (callArg h a self locals) (\<lambda>x. ret (Bool (\<not> truthy x))))"

definition OPERATORS :: "host \<Rightarrow> string \<rightharpoonup> jsfun" where
  "OPERATORS h = map_of [
     (''null'', opConst Null),
     (''true'', opConst (Bool True)),
     (''false'', opConst (Bool False)),
     (''undefined'', noop),
     (''+'', opPlus h),
     (''-'', opMinus h),
     (''*'', opBinary h ''*''),
     (''/'', opBinary h ''/''),
     (''%'', opBinary h ''%''),
     (''^'', opBinary h ''^''),
     (''='', noop),
     (''==='', opStrictEq h),
     (''!=='', opStrictNe h),
     (''=='', opStrictEq h),
     (''!='', opStrictNe h),
     (''<'', opBinary h ''<''),
     (''>'', opBinary h ''>''),
     (''<='', opBinary h ''<=''),
     (''>='', opBinary h ''>=''),
     (''&&'', opAnd h),
     (''||'', opOr h),
     (''&'', opBinary h ''&''),
     (''|'', opPipe h),
     (''!'', opNot h)]"


subsection \<open>The path compiler\<close>

definition hookField :: string where
  "hookField = ''___runtimeHooks''"

definition getRuntimeHooks :: "val \<Rightarrow> val M" where
  "getRuntimeHooks locals = (if locals \<noteq> Undefined then getProp locals hookField else ret Undefined)"

text \<open>The value of \<^verbatim>\<open>hooks && hooks.name\<close>.\<close>

definition hookOf :: "val \<Rightarrow> string \<Rightarrow> val M" where
  "hookOf hooks name = (if truthy hooks then getProp hooks name else ret hooks)"

text \<open>\<^verbatim>\<open>hooks.readFieldHook(obj, key)\<close> and \<^verbatim>\<open>hooks.writeFieldHook(obj, key, value)\<close>.\<close>

definition readFieldHook :: "host \<Rightarrow> val \<Rightarrow> val \<Rightarrow> string option \<Rightarrow> val M" where
  "readFieldHook h hooks obj key =
     bnd (getProp hooks ''readFieldHook'') (\<lambda>f. invoke h f hooks [obj, keyVal key])"

definition writeFieldHook :: "host \<Rightarrow> val \<Rightarrow> val \<Rightarrow> string option \<Rightarrow> val \<Rightarrow> val M" where
  "writeFieldHook h hooks obj key value =
     bnd (getProp hooks ''writeFieldHook'') (\<lambda>f. invoke h f hooks [obj, keyVal key, value])"

text \<open>\<^verbatim>\<open>(locals && locals.hasOwnProperty(key0)) ? locals : scope\<close>\<close>

definition localsOrScope :: "val \<Rightarrow> val \<Rightarrow> string option \<Rightarrow> val M" where
  "localsOrScope scope locals key0 = (\<lambda>s.
     (Inr (if truthy locals \<and> hasOwnProperty s locals (keyName key0) then locals else scope), s))"

type_synonym getter = "val \<Rightarrow> val \<Rightarrow> val M"

text \<open>
  The closure of \<^verbatim>\<open>cspSafeGetterFn\<close>. After the first key the source repeats one step for
  each of \<^verbatim>\<open>key1\<close> to \<^verbatim>\<open>key4\<close>: return at a falsy key, return \<^verbatim>\<open>undefined\<close> at a missing
  value, else read the key. \<open>rd\<close> reads a key: through the hook, or directly.
\<close>

fun cspSteps :: "(val \<Rightarrow> string option \<Rightarrow> val M) \<Rightarrow> val \<Rightarrow> string option list \<Rightarrow> val M" where
  "cspSteps rd pathVal [] = ret pathVal"
| "cspSteps rd pathVal (key # keys) =
     (if \<not> keyTruthy key then ret pathVal
      else if isNullish pathVal then ret Undefined
      else bnd (rd pathVal key) (\<lambda>v. cspSteps rd v keys))"

definition cspSafeGetter ::
  "host \<Rightarrow> string option \<Rightarrow> string option \<Rightarrow> string option \<Rightarrow> string option \<Rightarrow> string option
     \<Rightarrow> getter" where
  "cspSafeGetter h key0 key1 key2 key3 key4 = (\<lambda>scope locals.
     bnd (localsOrScope scope locals key0) (\<lambda>pathVal.
     bnd (getRuntimeHooks locals) (\<lambda>hooks.
     bnd (hookOf hooks ''readFieldHook'') (\<lambda>hook.
       if truthy hook then
         (if isNullish pathVal then ret pathVal
          else bnd (readFieldHook h hooks pathVal key0) (\<lambda>v.
                 cspSteps (readFieldHook h hooks) v [key1, key2, key3, key4]))
       else
         (if isNullish pathVal then ret pathVal
          else bnd (getProp pathVal (keyName key0)) (\<lambda>v.
                 cspSteps (\<lambda>p k. getProp p (keyName k)) v [key1, key2, key3, key4]))))))"

definition cspSafeGetterFn ::
  "host \<Rightarrow> string option \<Rightarrow> string option \<Rightarrow> string option \<Rightarrow> string option \<Rightarrow> string option
     \<Rightarrow> string \<Rightarrow> error + getter" where
  "cspSafeGetterFn h key0 key1 key2 key3 key4 fullExp =
     bndE (ensureSafeMemberName key0 fullExp) (\<lambda>_.
     bndE (ensureSafeMemberName key1 fullExp) (\<lambda>_.
     bndE (ensureSafeMemberName key2 fullExp) (\<lambda>_.
     bndE (ensureSafeMemberName key3 fullExp) (\<lambda>_.
     bndE (ensureSafeMemberName key4 fullExp) (\<lambda>_.
     Inr (cspSafeGetter h key0 key1 key2 key3 key4))))))"

definition simpleGetter1 :: "host \<Rightarrow> string option \<Rightarrow> getter" where
  "simpleGetter1 h key0 = (\<lambda>scope locals.
     bnd (localsOrScope scope locals key0) (\<lambda>scope.
       if isNullish scope then ret Undefined
       else
         bnd (getRuntimeHooks locals) (\<lambda>hooks.
         bnd (hookOf hooks ''readFieldHook'') (\<lambda>hook.
           if truthy hook then readFieldHook h hooks scope key0
           else getProp scope (keyName key0)))))"

definition simpleGetterFn1 :: "host \<Rightarrow> string option \<Rightarrow> string \<Rightarrow> error + getter" where
  "simpleGetterFn1 h key0 fullExp =
     bndE (ensureSafeMemberName key0 fullExp) (\<lambda>_. Inr (simpleGetter1 h key0))"

definition simpleGetter2 :: "host \<Rightarrow> string option \<Rightarrow> string option \<Rightarrow> getter" where
  "simpleGetter2 h key0 key1 = (\<lambda>scope locals.
     bnd (getRuntimeHooks locals) (\<lambda>hooks.
     bnd (hookOf hooks ''readFieldHook'') (\<lambda>hook.
       if truthy hook then
         bnd (localsOrScope scope locals key0) (\<lambda>scope.
           if isNullish scope then ret Undefined
           else bnd (readFieldHook h hooks scope key0) (\<lambda>scope.
                  if isNullish scope then ret Undefined
                  else readFieldHook h hooks scope key1))
       else
         bnd (localsOrScope scope locals key0) (\<lambda>base.
         bnd (getProp base (keyName key0)) (\<lambda>scope.
           if isNullish scope then ret Undefined else getProp scope (keyName key1))))))"

definition simpleGetterFn2 :: "host \<Rightarrow> string option \<Rightarrow> string option \<Rightarrow> string \<Rightarrow> error + getter" where
  "simpleGetterFn2 h key0 key1 fullExp =
     bndE (ensureSafeMemberName key0 fullExp) (\<lambda>_.
     bndE (ensureSafeMemberName key1 fullExp) (\<lambda>_.
     Inr (simpleGetter2 h key0 key1)))"

text \<open>\<^verbatim>\<open>path.split(".")\<close>: the segments between the dots, at least one.\<close>

fun splitDots :: "string \<Rightarrow> string list" where
  "splitDots [] = [[]]"
| "splitDots (c # cs) =
     (if c = CHR ''.'' then [] # splitDots cs
      else (case splitDots cs of [] \<Rightarrow> [[c]] | seg # segs \<Rightarrow> (c # seg) # segs))"

text \<open>\<^verbatim>\<open>pathKeys[i]\<close>, \<^verbatim>\<open>undefined\<close> past the end.\<close>

definition keyAt :: "string list \<Rightarrow> nat \<Rightarrow> string option" where
  "keyAt pathKeys i = (if i < length pathKeys then Some (pathKeys ! i) else None)"

text \<open>
  \<^verbatim>\<open>Object.keys(locals).forEach(x => _locals[x] = locals[x])\<close>: the own properties of
  \<^verbatim>\<open>locals\<close>; \<^verbatim>\<open>Object.keys\<close> throws on \<^verbatim>\<open>undefined\<close> and \<^verbatim>\<open>null\<close>.
\<close>

definition snapshot :: "val \<Rightarrow> obj M" where
  "snapshot locals = (\<lambda>s.
     if isNullish locals then (Inl (TypeError ''Cannot convert undefined or null to object''), s)
     else (Inr (ownProps s locals), s))"

text \<open>
  The loop of the getter for six or more keys. \<open>backup\<close> holds the properties of
  \<^verbatim>\<open>_locals\<close>; after each chunk \<^verbatim>\<open>locals\<close> is a new object with these properties.
\<close>

function getterLoop ::
  "host \<Rightarrow> string list \<Rightarrow> string \<Rightarrow> obj \<Rightarrow> nat \<Rightarrow> val \<Rightarrow> val \<Rightarrow> state \<Rightarrow> (error + val) \<times> state" where
  "getterLoop h pathKeys fullExp backup i scope locals s =
     (case cspSafeGetterFn h (keyAt pathKeys i) (keyAt pathKeys (i + 1)) (keyAt pathKeys (i + 2))
             (keyAt pathKeys (i + 3)) (keyAt pathKeys (i + 4)) fullExp of
        Inl e \<Rightarrow> (Inl e, s)
      | Inr fn \<Rightarrow>
          (case fn scope locals s of
             (Inl e, s1) \<Rightarrow> (Inl e, s1)
           | (Inr val, s1) \<Rightarrow>
               (case newObject backup s1 of
                  (Inl e, s2) \<Rightarrow> (Inl e, s2)
                | (Inr locals', s2) \<Rightarrow>
                    if i + 5 < length pathKeys
                    then getterLoop h pathKeys fullExp backup (i + 5) val locals' s2
                    else (Inr val, s2))))"
  by pat_completeness auto
termination
  by (relation "measure (\<lambda>(h, pathKeys, fullExp, backup, i, scope, locals, s). length pathKeys - i)")
     auto

declare getterLoop.simps [simp del]

definition longGetter :: "host \<Rightarrow> string list \<Rightarrow> string \<Rightarrow> getter" where
  "longGetter h pathKeys fullExp = (\<lambda>scope locals.
     bnd (snapshot locals) (\<lambda>backup. getterLoop h pathKeys fullExp backup 0 scope locals))"

text \<open>
  \<^verbatim>\<open>obj[k] = v\<close> for an object literal used as a dictionary and an object (or function)
  \<open>v\<close>: the entry under \<open>k\<close> is set, except under \<^verbatim>\<open>__proto__\<close>, where the accessor inherited
  from \<^verbatim>\<open>Object.prototype\<close> makes \<open>v\<close> the prototype of the object and no own property is
  added.
\<close>

definition setEntry :: "(string \<rightharpoonup> 'a) \<Rightarrow> string \<Rightarrow> 'a \<Rightarrow> (string \<rightharpoonup> 'a)" where
  "setEntry m k v = (if k = ''__proto__'' then m else m(k \<mapsto> v))"

text \<open>
  \<^verbatim>\<open>getterFn\<close> with the cache \<^verbatim>\<open>getterFnCache\<close> passed in and returned. (The parameter
  \<^verbatim>\<open>options\<close> is never read.) The cache is the object literal \<^verbatim>\<open>{}\<close>; it is asked with
  \<^verbatim>\<open>hasOwnProperty\<close>, so it is the map of its own entries, and it is filled by assignment.
\<close>

type_synonym getterCache = "string \<rightharpoonup> getter"

definition getterFn :: "host \<Rightarrow> string \<Rightarrow> string \<Rightarrow> getterCache \<Rightarrow> (error + getter) \<times> getterCache" where
  "getterFn h path fullExp getterFnCache =
     (case getterFnCache path of
        Some fn \<Rightarrow> (Inr fn, getterFnCache)
      | None \<Rightarrow>
          (let pathKeys = splitDots path;
               pathKeysLength = length pathKeys;
               compiled =
                 (if pathKeysLength = 1 then simpleGetterFn1 h (keyAt pathKeys 0) fullExp
                  else if pathKeysLength = 2 then
                    simpleGetterFn2 h (keyAt pathKeys 0) (keyAt pathKeys 1) fullExp
                  else if pathKeysLength < 6 then
                    cspSafeGetterFn h (keyAt pathKeys 0) (keyAt pathKeys 1) (keyAt pathKeys 2)
                      (keyAt pathKeys 3) (keyAt pathKeys 4) fullExp
                  else Inr (longGetter h pathKeys fullExp))
           in case compiled of
                Inl e \<Rightarrow> (Inl e, getterFnCache)
              | Inr fn \<Rightarrow>
                  (Inr fn,
                   if path \<noteq> ''hasOwnProperty'' then setEntry getterFnCache path fn
                   else getterFnCache)))"

text \<open>
  \<^verbatim>\<open>setter\<close>. The loop runs while more than one element is left; each pass takes the
  first element, reads it from \<^verbatim>\<open>obj\<close> and creates an empty object where the value is
  falsy.
\<close>

fun setterLoop :: "host \<Rightarrow> val \<Rightarrow> string \<Rightarrow> val \<Rightarrow> string list \<Rightarrow> val M" where
  "setterLoop h hooks fullExp obj (e # e' # es) =
     bnd (liftE (ensureSafeMemberName (Some e) fullExp)) (\<lambda>key.
     bnd (if truthy hooks then
            bnd (getProp hooks ''readFieldHook'') (\<lambda>rd.
              if truthy rd then readFieldHook h hooks obj key else getProp obj (keyName key))
          else getProp obj (keyName key)) (\<lambda>propertyObj.
       if \<not> truthy propertyObj then
         bnd (newObject Map.empty) (\<lambda>propertyObj.
         bnd (if truthy hooks then
                bnd (getProp hooks ''writeFieldHook'') (\<lambda>wr.
                  if truthy wr then writeFieldHook h hooks obj key propertyObj
                  else bnd (setProp obj (keyName key) propertyObj) (\<lambda>_. ret propertyObj))
              else bnd (setProp obj (keyName key) propertyObj) (\<lambda>_. ret propertyObj)) (\<lambda>_.
           setterLoop h hooks fullExp propertyObj (e' # es)))
       else setterLoop h hooks fullExp propertyObj (e' # es)))"
| "setterLoop h hooks fullExp obj es = ret obj"

definition setter :: "host \<Rightarrow> val \<Rightarrow> string \<Rightarrow> val \<Rightarrow> string \<Rightarrow> val \<Rightarrow> val M" where
  "setter h obj path setValue fullExp locals =
     (let element = splitDots path in
      bnd (getRuntimeHooks locals) (\<lambda>hooks.
      bnd (setterLoop h hooks fullExp obj element) (\<lambda>obj.
      bnd (liftE (ensureSafeMemberName (Some (last element)) fullExp)) (\<lambda>key.
      bnd (hookOf hooks ''writeFieldHook'') (\<lambda>wr.
      bnd (if truthy wr then writeFieldHook h hooks obj key setValue
           else bnd (setProp obj (keyName key) setValue) (\<lambda>_. ret Undefined)) (\<lambda>_.
        ret setValue))))))"


subsection \<open>Compiled expressions and tokens\<close>

text \<open>
  A compiled expression is a function object: the function, its properties \<^verbatim>\<open>constant\<close> and
  \<^verbatim>\<open>literal\<close> (as the conditions they are used as), and \<^verbatim>\<open>assign(scope, value, locals)\<close> when it has one.
\<close>

record cexp =
  run :: jsfun
  isConstant :: bool
  isLiteral :: bool
  assign :: "(val \<Rightarrow> val \<Rightarrow> val \<Rightarrow> val M) option"

definition plainFn :: "jsfun \<Rightarrow> cexp" where
  "plainFn f = \<lparr>run = f, isConstant = False, isLiteral = False, assign = None\<rparr>"

text \<open>\<^verbatim>\<open>e(self, locals)\<close> for a compiled expression, and the expression as an argument.\<close>

definition evalExp :: "cexp \<Rightarrow> val \<Rightarrow> val \<Rightarrow> val M" where
  "evalExp e self locals = run e self locals ArgNone ArgNone"

definition asArg :: "cexp \<Rightarrow> jsarg" where
  "asArg e = ArgFn (evalExp e)"

text \<open>
  A token. Its text is a string, or a number for a number token. \<^verbatim>\<open>json\<close> is kept as the
  condition it is used as.
\<close>

record token =
  tok_index :: nat
  tok_text :: val
  tok_fn :: "cexp option"
  tok_json :: bool
  tok_string :: "string option"

subsection \<open>The lexer\<close>

definition isNumber :: "char \<Rightarrow> bool" where
  "isNumber ch = (CHR ''0'' \<le> ch \<and> ch \<le> CHR ''9'')"

definition isWhitespace :: "char \<Rightarrow> bool" where
  "isWhitespace ch = (ch = CHR '' '' \<or> ch = CHR 0x0D \<or> ch = CHR 0x09 \<or> ch = CHR 0x0A
     \<or> ch = CHR 0x0B \<or> ch = CHR 0xA0)"

definition isIdent :: "char \<Rightarrow> bool" where
  "isIdent ch = ((CHR ''a'' \<le> ch \<and> ch \<le> CHR ''z'') \<or> (CHR ''A'' \<le> ch \<and> ch \<le> CHR ''Z'')
     \<or> CHR ''_'' = ch \<or> ch = CHR ''$'' \<or> ch = CHR ''@'')"

text \<open>
  \<^verbatim>\<open>peek(i)\<close> is the character at \<^verbatim>\<open>index + i\<close>, or \<^verbatim>\<open>false\<close> past the end. The comparisons
  of \<^verbatim>\<open>isNumber\<close> convert \<^verbatim>\<open>false\<close> to 0, so \<^verbatim>\<open>isNumber(false)\<close> is true.
\<close>

definition peek :: "string \<Rightarrow> nat \<Rightarrow> nat \<Rightarrow> char option" where
  "peek text index num = (if index + num < length text then Some (text ! (index + num)) else None)"

definition isNumberPeek :: "char option \<Rightarrow> bool" where
  "isNumberPeek p = (case p of None \<Rightarrow> True | Some ch \<Rightarrow> isNumber ch)"

definition isExpOperator :: "char \<Rightarrow> bool" where
  "isExpOperator ch = (ch = CHR ''-'' \<or> ch = CHR ''+'' \<or> isNumber ch)"

definition isExpOperatorPeek :: "char option \<Rightarrow> bool" where
  "isExpOperatorPeek p = (case p of None \<Rightarrow> True | Some ch \<Rightarrow> isExpOperator ch)"

text \<open>The text a character or \<^verbatim>\<open>false\<close> adds to a string.\<close>

definition peekText :: "char option \<Rightarrow> string" where
  "peekText p = (case p of None \<Rightarrow> ''false'' | Some ch \<Rightarrow> [ch])"

text \<open>\<^verbatim>\<open>text.substring(a, b)\<close>.\<close>

definition substring :: "string \<Rightarrow> nat \<Rightarrow> nat \<Rightarrow> string" where
  "substring s a b =
     (let a' = min a (length s); b' = min b (length s)
      in take (max a' b' - min a' b') (drop (min a' b') s))"

text \<open>
  The text of a value where a string is built from it: a string itself, \<^verbatim>\<open>undefined\<close>, a
  non-negative safe integer in decimal; the host's conversion otherwise.
\<close>

definition showVal :: "host \<Rightarrow> val \<Rightarrow> string" where
  "showVal h v =
     (case v of
        Str s \<Rightarrow> s
      | Undefined \<Rightarrow> ''undefined''
      | Num x \<Rightarrow> if isSafeInteger x \<and> 0 \<le> x then showNat (nat \<lfloor>x\<rfloor>) else toString h v
      | _ \<Rightarrow> toString h v)"

text \<open>
  \<^verbatim>\<open>Lexer.throwError(error, start, end)\<close> at the position \<open>index\<close>.
\<close>

definition lexError :: "string \<Rightarrow> nat \<Rightarrow> string \<Rightarrow> nat option \<Rightarrow> nat option \<Rightarrow> error" where
  "lexError text index err start end =
     (let end' = (case end of Some e \<Rightarrow> if e \<noteq> 0 then e else index | None \<Rightarrow> index);
          colStr = (case start of
                      Some st \<Rightarrow> ''s '' @ showNat st @ ''-'' @ showNat index @ '' [''
                                   @ substring text st end' @ '']''
                    | None \<Rightarrow> '' '' @ showNat end')
      in parseMinErr ''lexerr'' ''Lexer Error: {0} at column{1} in expression [{2}].''
           [err, colStr, text])"

text \<open>\<^verbatim>\<open>1 * n\<close> for the text of a number: exact for a safe integer in plain digits.\<close>

definition digitsValue :: "string \<Rightarrow> nat" where
  "digitsValue s = foldl (\<lambda>acc c. 10 * acc + digitValue c) 0 s"

definition numberOfText :: "host \<Rightarrow> string \<Rightarrow> val" where
  "numberOfText h n =
     (if n \<noteq> [] \<and> (\<forall>c \<in> set n. isDigit c) \<and> digitsValue n \<le> 9007199254740991
      then Num (real (digitsValue n)) else toNumber h n)"

definition lowercase :: "char \<Rightarrow> char" where
  "lowercase ch = (if CHR ''A'' \<le> ch \<and> ch \<le> CHR ''Z'' then char_of (of_char ch + (32::nat)) else ch)"

definition literalToken :: "nat \<Rightarrow> val \<Rightarrow> val \<Rightarrow> string option \<Rightarrow> token" where
  "literalToken start txt v str =
     \<lparr>tok_index = start, tok_text = txt, tok_fn = Some (plainFn (opConst v)), tok_json = True,
      tok_string = str\<rparr>"

text \<open>\<^verbatim>\<open>readNumber\<close>: the loop returns the index it stops at and the text read.\<close>

function readNumberLoop :: "string \<Rightarrow> nat \<Rightarrow> string \<Rightarrow> error + nat \<times> string" where
  "readNumberLoop text index n =
     (if index < length text then
        (let ch = lowercase (text ! index) in
         if ch = CHR ''.'' \<or> isNumber ch then readNumberLoop text (index + 1) (n @ [ch])
         else
           (let peekCh = peek text index 1 in
            if ch = CHR ''e'' \<and> isExpOperatorPeek peekCh then
              readNumberLoop text (index + 1) (n @ [ch])
            else if isExpOperator ch \<and> (peekCh \<noteq> None \<and> isNumberPeek peekCh)
                    \<and> n \<noteq> [] \<and> last n = CHR ''e'' then
              readNumberLoop text (index + 1) (n @ [ch])
            else if isExpOperator ch \<and> (peekCh = None \<or> \<not> isNumberPeek peekCh)
                    \<and> n \<noteq> [] \<and> last n = CHR ''e'' then
              Inl (lexError text index ''Invalid exponent'' None None)
            else Inr (index, n)))
      else Inr (index, n))"
  by pat_completeness auto
termination
  by (relation "measure (\<lambda>(text, index, n). length text - index)") auto

declare readNumberLoop.simps [simp del]

definition readNumber :: "host \<Rightarrow> string \<Rightarrow> nat \<Rightarrow> error + token \<times> nat" where
  "readNumber h text index =
     bndE (readNumberLoop text index []) (\<lambda>(index', n).
       let v = numberOfText h n in Inr (literalToken index v v None, index'))"

text \<open>\<^verbatim>\<open>readString\<close>.\<close>

definition ESCAPE :: "char \<rightharpoonup> char" where
  "ESCAPE = [CHR ''n'' \<mapsto> CHR 0x0A, CHR ''f'' \<mapsto> CHR 0x0C, CHR ''r'' \<mapsto> CHR 0x0D,
     CHR ''t'' \<mapsto> CHR 0x09, CHR ''v'' \<mapsto> CHR 0x0B, CHR 0x27 \<mapsto> CHR 0x27, CHR 0x22 \<mapsto> CHR 0x22]"

definition hexValue :: "char \<Rightarrow> nat option" where
  "hexValue c =
     (if isDigit c then Some (of_char c - 48)
      else if CHR ''a'' \<le> c \<and> c \<le> CHR ''f'' then Some (of_char c - 87)
      else if CHR ''A'' \<le> c \<and> c \<le> CHR ''F'' then Some (of_char c - 55)
      else None)"

text \<open>\<^verbatim>\<open>hex.match(/[\da-f]{4}/i)\<close> on a text of at most four characters, and \<^verbatim>\<open>parseInt(hex, 16)\<close>.\<close>

definition isHex4 :: "string \<Rightarrow> bool" where
  "isHex4 hex = (length hex = 4 \<and> (\<forall>c \<in> set hex. hexValue c \<noteq> None))"

definition parseHex :: "string \<Rightarrow> nat" where
  "parseHex hex = foldl (\<lambda>acc c. 16 * acc + the (hexValue c)) 0 hex"

function readStringLoop ::
  "string \<Rightarrow> char \<Rightarrow> nat \<Rightarrow> nat \<Rightarrow> string \<Rightarrow> string \<Rightarrow> bool \<Rightarrow> error + token \<times> nat" where
  "readStringLoop text quote start index value rawString escape =
     (if index < length text then
        (let ch = text ! index; rawString = rawString @ [ch] in
         if escape then
           (if ch = CHR ''u'' then
              (let hex = substring text (index + 1) (index + 5) in
               if \<not> isHex4 hex then
                 Inl (lexError text index (''Invalid unicode escape ['' @ [CHR 0x5C] @ ''u'' @ hex @ '']'') None None)
               else readStringLoop text quote start (index + 4 + 1)
                      (value @ [char_of (parseHex hex)]) rawString False)
            else readStringLoop text quote start (index + 1)
                   (value @ [case ESCAPE ch of Some rep \<Rightarrow> rep | None \<Rightarrow> ch]) rawString False)
         else if ch = CHR 0x5C then
           readStringLoop text quote start (index + 1) value rawString True
         else if ch = quote then
           Inr (literalToken start (Str rawString) (Str value) (Some value), index + 1)
         else readStringLoop text quote start (index + 1) (value @ [ch]) rawString False)
      else Inl (lexError text index ''Unterminated quote'' (Some start) None))"
  by pat_completeness auto
termination
  by (relation "measure (\<lambda>(text, quote, start, index, value, rawString, escape). length text - index)")
     auto

declare readStringLoop.simps [simp del]

definition readString :: "string \<Rightarrow> nat \<Rightarrow> char \<Rightarrow> error + token \<times> nat" where
  "readString text index quote = readStringLoop text quote index (index + 1) [] [quote] False"


text \<open>
  \<^verbatim>\<open>readIdent\<close>. The token of an identifier: an entry of \<^verbatim>\<open>OPERATORS\<close> for \<^verbatim>\<open>null\<close>, \<^verbatim>\<open>true\<close>,
  \<^verbatim>\<open>false\<close> and \<^verbatim>\<open>undefined\<close>, otherwise the getter of the path, with \<^verbatim>\<open>assign\<close> calling
  \<^verbatim>\<open>setter\<close>.
\<close>

definition identToken ::
  "host \<Rightarrow> string \<Rightarrow> nat \<Rightarrow> string \<Rightarrow> getterCache \<Rightarrow> (error + token) \<times> getterCache" where
  "identToken h text start ident cache =
     (case OPERATORS h ident of
        Some f \<Rightarrow>
          (Inr \<lparr>tok_index = start, tok_text = Str ident, tok_fn = Some (plainFn f),
                tok_json = True, tok_string = None\<rparr>, cache)
      | None \<Rightarrow>
          (case getterFn h ident text cache of
             (Inl e, cache') \<Rightarrow> (Inl e, cache')
           | (Inr getter, cache') \<Rightarrow>
               (Inr \<lparr>tok_index = start, tok_text = Str ident,
                     tok_fn = Some \<lparr>run = (\<lambda>self locals a b. getter self locals),
                       isConstant = False, isLiteral = False,
                       assign = Some (\<lambda>self value locals. setter h self ident value text locals)\<rparr>,
                     tok_json = False, tok_string = None\<rparr>, cache')))"

text \<open>The offset of the last dot in the identifier read.\<close>

definition lastDotOf :: "string \<Rightarrow> nat option" where
  "lastDotOf ident =
     (if CHR ''.'' \<in> set ident
      then Some (length ident - 1 - length (takeWhile (\<lambda>c. c \<noteq> CHR ''.'') (rev ident)))
      else None)"

text \<open>
  The look ahead for a method invocation: the index of an opening parenthesis that
  follows the identifier, whitespace skipped.
\<close>

definition methodParen :: "string \<Rightarrow> nat \<Rightarrow> nat option" where
  "methodParen text index =
     (let peekIndex = index + length (takeWhile isWhitespace (drop index text))
      in if peekIndex < length text \<and> text ! peekIndex = CHR ''('' then Some peekIndex else None)"

definition plainToken :: "nat \<Rightarrow> string \<Rightarrow> bool \<Rightarrow> token" where
  "plainToken i txt json =
     \<lparr>tok_index = i, tok_text = Str txt, tok_fn = None, tok_json = json, tok_string = None\<rparr>"

definition readIdent ::
  "host \<Rightarrow> string \<Rightarrow> nat \<Rightarrow> getterCache \<Rightarrow> (error + token list \<times> nat) \<times> getterCache" where
  "readIdent h text index cache =
     (let start = index;
          ident = takeWhile (\<lambda>ch. ch = CHR ''.'' \<or> isIdent ch \<or> isNumber ch) (drop index text);
          index1 = index + length ident;
          found = (case lastDotOf ident of
                     None \<Rightarrow> None
                   | Some r \<Rightarrow>
                       if start + r \<noteq> 0 then
                         (case methodParen text index1 of
                            None \<Rightarrow> None
                          | Some peekIndex \<Rightarrow> Some (r, peekIndex))
                       else None);
          methodName = (case found of Some (r, p) \<Rightarrow> drop (r + 1) ident | None \<Rightarrow> []);
          ident' = (case found of Some (r, p) \<Rightarrow> take r ident | None \<Rightarrow> ident);
          index2 = (case found of Some (r, p) \<Rightarrow> p | None \<Rightarrow> index1);
          lastDot = (case found of Some (r, p) \<Rightarrow> start + r | None \<Rightarrow> 0)
      in case identToken h text start ident' cache of
           (Inl e, cache') \<Rightarrow> (Inl e, cache')
         | (Inr tok, cache') \<Rightarrow>
             (Inr (tok # (if methodName \<noteq> [] then
                            [plainToken lastDot ''.'' False,
                             plainToken (lastDot + 1) methodName False]
                          else []), index2), cache'))"

text \<open>
  The variables of \<^verbatim>\<open>lex\<close>: the index, the tokens, \<^verbatim>\<open>lastCh\<close> and the local stack \<^verbatim>\<open>json\<close>
  (its head is \<^verbatim>\<open>json[0]\<close>).
\<close>

record lexer =
  lex_index :: nat
  lex_tokens :: "token list"
  lex_lastCh :: char
  lex_json :: string

text \<open>One pass through the loop of \<^verbatim>\<open>lex\<close>, at an index inside the text.\<close>

definition lexStep ::
  "host \<Rightarrow> string \<Rightarrow> lexer \<Rightarrow> getterCache \<Rightarrow> (error + lexer) \<times> getterCache" where
  "lexStep h text lx cache =
     (let index = lex_index lx;
          ch = text ! index;
          is = (\<lambda>chars. ch \<in> set chars);
          was = (\<lambda>chars. lex_lastCh lx \<in> set chars)
      in
      if ch = CHR 0x22 \<or> ch = CHR 0x27 then
        (case readString text index ch of
           Inl e \<Rightarrow> (Inl e, cache)
         | Inr (tok, index') \<Rightarrow>
             (Inr (lx\<lparr>lex_index := index', lex_tokens := lex_tokens lx @ [tok], lex_lastCh := ch\<rparr>),
              cache))
      else if isNumber ch \<or> (is ''.'' \<and> isNumberPeek (peek text index 1)) then
        (case readNumber h text index of
           Inl e \<Rightarrow> (Inl e, cache)
         | Inr (tok, index') \<Rightarrow>
             (Inr (lx\<lparr>lex_index := index', lex_tokens := lex_tokens lx @ [tok], lex_lastCh := ch\<rparr>),
              cache))
      else if isIdent ch then
        (case readIdent h text index cache of
           (Inl e, cache') \<Rightarrow> (Inl e, cache')
         | (Inr (toks, index'), cache') \<Rightarrow>
             (let tokens = lex_tokens lx @ toks;
                  tokens' =
                    (if was ''{,'' \<and> lex_json lx \<noteq> [] \<and> hd (lex_json lx) = CHR ''{''
                        \<and> tokens \<noteq> [] then
                       butlast tokens @
                         [(last tokens)\<lparr>tok_json :=
                            (case tok_text (last tokens) of
                               Str t \<Rightarrow> CHR ''.'' \<notin> set t | _ \<Rightarrow> False)\<rparr>]
                     else tokens)
              in (Inr (lx\<lparr>lex_index := index', lex_tokens := tokens', lex_lastCh := ch\<rparr>), cache')))
      else if is ''(){}[].,;:?'' then
        (Inr (lx\<lparr>lex_index := index + 1,
               lex_tokens := lex_tokens lx
                 @ [plainToken index [ch] ((was '':[,'' \<and> is ''{['') \<or> is ''}]:,'')],
               lex_lastCh := ch,
               lex_json := (if is ''{['' then ch # lex_json lx
                            else if is ''}]'' then tl (lex_json lx) else lex_json lx)\<rparr>), cache)
      else if isWhitespace ch then
        (Inr (lx\<lparr>lex_index := index + 1\<rparr>), cache)
      else
        (let ch2 = ch # peekText (peek text index 1);
             ch3 = ch2 @ peekText (peek text index 2)
         in case OPERATORS h ch3 of
              Some fn3 \<Rightarrow>
                (Inr (lx\<lparr>lex_index := index + 3,
                       lex_tokens := lex_tokens lx
                         @ [(plainToken index ch3 False)\<lparr>tok_fn := Some (plainFn fn3)\<rparr>],
                       lex_lastCh := ch\<rparr>), cache)
            | None \<Rightarrow>
               (case OPERATORS h ch2 of
                  Some fn2 \<Rightarrow>
                    (Inr (lx\<lparr>lex_index := index + 2,
                           lex_tokens := lex_tokens lx
                             @ [(plainToken index ch2 False)\<lparr>tok_fn := Some (plainFn fn2)\<rparr>],
                           lex_lastCh := ch\<rparr>), cache)
                | None \<Rightarrow>
                   (case OPERATORS h [ch] of
                      Some fn \<Rightarrow>
                        (Inr (lx\<lparr>lex_index := index + 1,
                               lex_tokens := lex_tokens lx
                                 @ [(plainToken index [ch] (was ''[,:'' \<and> is '' + -''))
                                      \<lparr>tok_fn := Some (plainFn fn)\<rparr>],
                               lex_lastCh := ch\<rparr>), cache)
                    | None \<Rightarrow>
                        (Inl (lexError text index ''Unexpected next character ''
                                (Some index) (Some (index + 1))), cache)))))"

lemma readNumberLoop_index: "readNumberLoop tx index n = Inr (index', n') \<Longrightarrow> index \<le> index'"
proof (induction tx index n rule: readNumberLoop.induct)
  case (1 tx index n)
  show ?case
  proof (cases "index < length tx")
    case True
    with "1.prems" "1.IH" show ?thesis
      by (subst (asm) readNumberLoop.simps) (fastforce simp: Let_def split: if_splits)
  next
    case False
    with "1.prems" show ?thesis
      by (subst (asm) readNumberLoop.simps) simp
  qed
qed

lemma readNumber_index:
  assumes "readNumber h tx index = Inr (tok, index')" and "index < length tx"
    and "isNumber (tx ! index) \<or> tx ! index = CHR ''.''"
  shows "index < index'"
proof -
  have low: "lowercase (tx ! index) = CHR ''.'' \<or> isNumber (lowercase (tx ! index))"
    using assms(3) by (auto simp: lowercase_def isNumber_def less_eq_char_def)
  from assms(1) obtain n where l: "readNumberLoop tx index [] = Inr (index', n)"
    by (auto simp: readNumber_def bndE_def Let_def split: sum.splits prod.splits)
  have "readNumberLoop tx index [] = readNumberLoop tx (index + 1) [lowercase (tx ! index)]"
    using assms(2) low by (subst readNumberLoop.simps) (simp add: Let_def)
  with l have "readNumberLoop tx (index + 1) [lowercase (tx ! index)] = Inr (index', n)"
    by simp
  from readNumberLoop_index [OF this] show ?thesis by simp
qed

lemma readStringLoop_index:
  "readStringLoop tx quote start index v rawString escape = Inr (tok, index') \<Longrightarrow> index < index'"
proof (induction tx quote start index v rawString escape rule: readStringLoop.induct)
  case (1 tx quote start index v rawString escape)
  show ?case
  proof (cases "index < length tx")
    case True
    with "1.prems" "1.IH" show ?thesis
      by (subst (asm) readStringLoop.simps) (fastforce simp: Let_def split: if_splits)
  next
    case False
    with "1.prems" show ?thesis
      by (subst (asm) readStringLoop.simps) simp
  qed
qed

lemma readString_index: "readString tx index quote = Inr (tok, index') \<Longrightarrow> index < index'"
  unfolding readString_def by (drule readStringLoop_index) simp

lemma methodParen_index: "methodParen tx i = Some p \<Longrightarrow> i \<le> p"
  by (auto simp: methodParen_def Let_def split: if_splits)

lemma readIdent_index:
  assumes "readIdent h tx index cache = (Inr (toks, index'), cache')" and "index < length tx"
    and "isIdent (tx ! index)"
  shows "index < index'"
proof -
  let ?ident = "takeWhile (\<lambda>ch. ch = CHR ''.'' \<or> isIdent ch \<or> isNumber ch) (drop index tx)"
  have "drop index tx = tx ! index # drop (Suc index) tx"
    using assms(2) by (simp add: Cons_nth_drop_Suc)
  then have pos: "0 < length ?ident" using assms(3) by simp
  define found where "found = (case lastDotOf ?ident of
                     None \<Rightarrow> None
                   | Some r \<Rightarrow>
                       if index + r \<noteq> 0 then
                         (case methodParen tx (index + length ?ident) of
                            None \<Rightarrow> None
                          | Some peekIndex \<Rightarrow> Some (r, peekIndex))
                       else None)"
  define index2 where "index2 = (case found of Some (r, p) \<Rightarrow> p | None \<Rightarrow> index + length ?ident)"
  have "index + length ?ident \<le> index2"
    by (auto simp: index2_def found_def split: option.splits if_splits dest: methodParen_index)
  moreover have "index' = index2"
    using assms(1) unfolding readIdent_def Let_def index2_def found_def
    by (auto split: prod.splits sum.splits)
  ultimately show ?thesis using pos by (cases ?ident) auto
qed


lemma lexStep_index:
  assumes "lexStep h tx lx cache = (Inr lx', cache')" and "lex_index lx < length tx"
  shows "lex_index lx < lex_index lx'"
  using assms
  by (auto simp: lexStep_def Let_def
      split: if_splits sum.splits prod.splits option.splits
      dest: readString_index readNumber_index readIdent_index)

lemma lexStep_measure:
  assumes "(Inr lx', cache') = lexStep h tx lx cache" and "lex_index lx < length tx"
  shows "length tx - lex_index lx' < length tx - lex_index lx"
proof -
  have "lex_index lx < lex_index lx'"
    using lexStep_index [OF assms(1) [symmetric] assms(2)] .
  with assms(2) show ?thesis by arith
qed

function lexLoop ::
  "host \<Rightarrow> string \<Rightarrow> lexer \<Rightarrow> getterCache \<Rightarrow> (error + token list) \<times> getterCache" where
  "lexLoop h text lx cache =
     (if lex_index lx < length text then
        (case lexStep h text lx cache of
           (Inl e, cache') \<Rightarrow> (Inl e, cache')
         | (Inr lx', cache') \<Rightarrow> lexLoop h text lx' cache')
      else (Inr (lex_tokens lx), cache))"
  by pat_completeness auto
termination
  by (relation "measure (\<lambda>(h, text, lx, cache). length text - lex_index lx)")
     (auto intro: lexStep_measure)

declare lexLoop.simps [simp del]

definition lex :: "host \<Rightarrow> string \<Rightarrow> getterCache \<Rightarrow> (error + token list) \<times> getterCache" where
  "lex h text cache =
     lexLoop h text \<lparr>lex_index = 0, lex_tokens = [], lex_lastCh = CHR '':'', lex_json = []\<rparr> cache"


subsection \<open>The parser\<close>

text \<open>
  The options of the compiler, and what a parser holds: the host, the text and the
  options (\<^verbatim>\<open>options || { filters: {} }\<close>).
\<close>

record options =
  filters :: "string \<rightharpoonup> val"
  disallowFunctionCalls :: bool

record parser =
  p_host :: host
  p_text :: string
  p_options :: options

text \<open>
  A parsing function reads the tokens left and the getter cache, and returns a result or
  throws; it returns \<open>None\<close> when its fuel is used up. The fuel \<open>n\<close> bounds the depth of
  nested expressions and the passes of each loop; the source has no such bound.
\<close>

type_synonym 'a P = "token list \<Rightarrow> getterCache \<Rightarrow> ((error + 'a) \<times> token list \<times> getterCache) option"

definition retP :: "'a \<Rightarrow> 'a P" where
  "retP x = (\<lambda>ts c. Some (Inr x, ts, c))"

definition throwP :: "error \<Rightarrow> 'a P" where
  "throwP e = (\<lambda>ts c. Some (Inl e, ts, c))"

definition bndP :: "'a P \<Rightarrow> ('a \<Rightarrow> 'b P) \<Rightarrow> 'b P" where
  "bndP m f = (\<lambda>ts c.
     case m ts c of
       None \<Rightarrow> None
     | Some (Inl e, ts', c') \<Rightarrow> Some (Inl e, ts', c')
     | Some (Inr x, ts', c') \<Rightarrow> f x ts' c')"

definition outOfFuel :: "'a P" where
  "outOfFuel = (\<lambda>ts c. None)"

text \<open>
  \<^verbatim>\<open>Parser.throwError(msg, token)\<close>. The token is a token, \<^verbatim>\<open>false\<close> (what a failed \<^verbatim>\<open>peek\<close> or
  \<^verbatim>\<open>expect\<close> returned) or \<^verbatim>\<open>undefined\<close> (no argument): reading \<^verbatim>\<open>text\<close> of \<^verbatim>\<open>false\<close> gives
  \<^verbatim>\<open>undefined\<close>, reading it of \<^verbatim>\<open>undefined\<close> throws.
\<close>

datatype tokenArg = TokenArg token | FalseArg | UndefinedArg

definition throwError :: "parser \<Rightarrow> string \<Rightarrow> tokenArg \<Rightarrow> error" where
  "throwError p msg token =
     (case token of
        TokenArg t \<Rightarrow>
          parseMinErr ''syntax''
            (''WebRx Syntax Error: Token '' @ [CHR 0x27] @ ''{0}'' @ [CHR 0x27]
               @ '' {1} at column {2} of the expression [{3}] starting at [{4}].'')
            [showVal (p_host p) (tok_text t), msg, showNat (tok_index t + 1), p_text p,
             drop (tok_index t) (p_text p)]
      | FalseArg \<Rightarrow>
          parseMinErr ''syntax''
            (''WebRx Syntax Error: Token '' @ [CHR 0x27] @ ''{0}'' @ [CHR 0x27]
               @ '' {1} at column {2} of the expression [{3}] starting at [{4}].'')
            [''undefined'', msg, ''NaN'', p_text p, p_text p]
      | UndefinedArg \<Rightarrow> TypeError ''Cannot read property of undefined or null'')"

text \<open>\<^verbatim>\<open>t === e1 || t === e2 || ...\<close>, or no expected text at all.\<close>

definition tokenIs :: "string list \<Rightarrow> token \<Rightarrow> bool" where
  "tokenIs es t = (es = [] \<or> (\<exists>e \<in> set es. tok_text t = Str e))"

definition peekToken :: "parser \<Rightarrow> token P" where
  "peekToken p = (\<lambda>ts c.
     case ts of
       [] \<Rightarrow> Some (Inl (parseMinErr ''ueoe'' ''Unexpected end of expression: {0}'' [p_text p]), ts, c)
     | t # _ \<Rightarrow> Some (Inr t, ts, c))"

definition peekFor :: "string list \<Rightarrow> token option P" where
  "peekFor es = (\<lambda>ts c.
     case ts of
       [] \<Rightarrow> Some (Inr None, ts, c)
     | t # _ \<Rightarrow> Some (Inr (if tokenIs es t then Some t else None), ts, c))"

definition expect :: "string list \<Rightarrow> token option P" where
  "expect es = (\<lambda>ts c.
     case ts of
       [] \<Rightarrow> Some (Inr None, ts, c)
     | t # ts' \<Rightarrow> if tokenIs es t then Some (Inr (Some t), ts', c) else Some (Inr None, ts, c))"

definition consume :: "parser \<Rightarrow> string \<Rightarrow> unit P" where
  "consume p e1 =
     bndP (expect [e1]) (\<lambda>t.
       case t of
         Some _ \<Rightarrow> retP ()
       | None \<Rightarrow>
           bndP (peekFor []) (\<lambda>t'.
             throwP (throwError p (''is unexpected, expecting ['' @ e1 @ '']'')
                       (case t' of Some tok \<Rightarrow> TokenArg tok | None \<Rightarrow> FalseArg))))"

text \<open>The function of an operator token, called with its operands.\<close>

definition tokenFn :: "token \<Rightarrow> jsfun" where
  "tokenFn t =
     (case tok_fn t of
        Some f \<Rightarrow> run f
      | None \<Rightarrow> (\<lambda>self locals a b. throw (TypeError ''undefined is not a function'')))"

definition unaryFn :: "jsfun \<Rightarrow> cexp \<Rightarrow> cexp" where
  "unaryFn fn right =
     \<lparr>run = (\<lambda>self locals a b. fn self locals (asArg right) ArgNone),
      isConstant = isConstant right, isLiteral = False, assign = None\<rparr>"

definition ternaryFn :: "cexp \<Rightarrow> cexp \<Rightarrow> cexp \<Rightarrow> cexp" where
  "ternaryFn left middle right =
     \<lparr>run = (\<lambda>self locals a b.
        bnd (evalExp left self locals) (\<lambda>c.
          if truthy c then evalExp middle self locals else evalExp right self locals)),
      isConstant = (isConstant left \<and> isConstant middle \<and> isConstant right),
      isLiteral = False, assign = None\<rparr>"

definition binaryFn :: "cexp \<Rightarrow> jsfun \<Rightarrow> cexp \<Rightarrow> cexp" where
  "binaryFn left fn right =
     \<lparr>run = (\<lambda>self locals a b. fn self locals (asArg left) (asArg right)),
      isConstant = (isConstant left \<and> isConstant right), isLiteral = False, assign = None\<rparr>"

text \<open>
  \<^verbatim>\<open>binaryFn(left, token.fn, this.filter())\<close>: the right operand is the function that
  \<^verbatim>\<open>filter()\<close> returns; it has no property \<^verbatim>\<open>constant\<close>.
\<close>

definition binaryFnFilter :: "cexp \<Rightarrow> jsfun \<Rightarrow> (val \<Rightarrow> val \<Rightarrow> val \<Rightarrow> val M) \<Rightarrow> cexp" where
  "binaryFnFilter left fn fnInvoke =
     \<lparr>run = (\<lambda>self locals a b. fn self locals (asArg left) (ArgFilter fnInvoke)),
      isConstant = False, isLiteral = False, assign = None\<rparr>"

definition ZERO :: cexp where
  "ZERO = plainFn (opConst (Num 0))"

text \<open>The values of a list of compiled expressions, in their order.\<close>

fun evalAll :: "cexp list \<Rightarrow> val \<Rightarrow> val \<Rightarrow> val list M" where
  "evalAll [] self locals = ret []"
| "evalAll (e # es) self locals =
     bnd (evalExp e self locals) (\<lambda>v. bnd (evalAll es self locals) (\<lambda>vs. ret (v # vs)))"

text \<open>
  An array is an object with its elements under their indices and its \<^verbatim>\<open>length\<close>.
  \<^verbatim>\<open>array.push(v)\<close>:
\<close>

definition arrayPush :: "val \<Rightarrow> val \<Rightarrow> unit M" where
  "arrayPush array v = (\<lambda>s.
     case field s array ''length'' of
       Num n \<Rightarrow> bnd (setProp array (showNat (nat \<lfloor>n\<rfloor>)) v)
                  (\<lambda>_. setProp array ''length'' (Num (n + 1))) s
     | _ \<Rightarrow> (Inl (TypeError ''not an array''), s))"

fun pushAll :: "val \<Rightarrow> cexp list \<Rightarrow> val \<Rightarrow> val \<Rightarrow> unit M" where
  "pushAll array [] self locals = ret ()"
| "pushAll array (e # es) self locals =
     bnd (evalExp e self locals) (\<lambda>v.
     bnd (arrayPush array v) (\<lambda>_. pushAll array es self locals))"

definition newArray :: "val list \<Rightarrow> val M" where
  "newArray vs =
     newObject ((map_of (zip (map showNat [0 ..< length vs]) vs))(''length'' \<mapsto> Num (real (length vs))))"

text \<open>
  \<^verbatim>\<open>fnPtr.apply ? fnPtr.apply(context, args) : fnPtr(args[0], ..., args[4])\<close>. A function
  has \<^verbatim>\<open>apply\<close> unless a property of its own hides it.
\<close>

definition applyFn :: "host \<Rightarrow> val \<Rightarrow> val \<Rightarrow> val list \<Rightarrow> val M" where
  "applyFn h fnPtr context args = (\<lambda>s.
     case ownProps s fnPtr ''apply'' of
       Some ap \<Rightarrow>
         if truthy ap then bnd (newArray args) (\<lambda>arr. invoke h ap fnPtr [context, arr]) s
         else invoke h fnPtr Undefined (take 5 (args @ replicate 5 Undefined)) s
     | None \<Rightarrow> invoke h fnPtr context args s)"

text \<open>
  The function that \<^verbatim>\<open>functionCall\<close> returns. \<^verbatim>\<open>fn(scope, locals, context) || noop\<close>: where
  the value is falsy, \<^verbatim>\<open>noop\<close> passes the guard, is applied and returns \<^verbatim>\<open>undefined\<close>.
\<close>

definition callFn :: "parser \<Rightarrow> cexp \<Rightarrow> cexp option \<Rightarrow> cexp list \<Rightarrow> jsfun" where
  "callFn p fn contextGetter argsFn = (\<lambda>scope locals a b.
     bnd (case contextGetter of Some g \<Rightarrow> evalExp g scope locals | None \<Rightarrow> ret scope) (\<lambda>context.
     bnd (evalAll argsFn scope locals) (\<lambda>args.
     bnd (run fn scope locals (ArgVal context) ArgNone) (\<lambda>f.
       if truthy f then
         bnd (ensureSafeObject context (p_text p)) (\<lambda>_.
         bnd (ensureSafeObject f (p_text p)) (\<lambda>fnPtr.
         bnd (applyFn (p_host p) fnPtr context args) (\<lambda>v.
           ensureSafeObject v (p_text p))))
       else
         bnd (ensureSafeObject context (p_text p)) (\<lambda>_. ret Undefined)))))"

text \<open>The functions that \<^verbatim>\<open>objectIndex\<close> returns.\<close>

definition indexRun :: "parser \<Rightarrow> cexp \<Rightarrow> cexp \<Rightarrow> jsfun" where
  "indexRun p obj indexFn = (\<lambda>self locals a b.
     bnd (evalExp obj self locals) (\<lambda>ob.
     bnd (evalExp indexFn self locals) (\<lambda>i.
       if \<not> truthy ob then ret Undefined
       else
         bnd (getRuntimeHooks locals) (\<lambda>hooks.
         bnd (hookOf hooks ''readIndexHook'') (\<lambda>hook.
         bnd (if truthy hook then
                bnd (getProp hooks ''readIndexHook'') (\<lambda>f. invoke (p_host p) f hooks [ob, i])
              else getProp ob (showVal (p_host p) i)) (\<lambda>v.
           ensureSafeObject v (p_text p)))))))"

definition indexAssign :: "parser \<Rightarrow> cexp \<Rightarrow> cexp \<Rightarrow> val \<Rightarrow> val \<Rightarrow> val \<Rightarrow> val M" where
  "indexAssign p obj indexFn = (\<lambda>self value locals.
     bnd (evalExp indexFn self locals) (\<lambda>key.
     bnd (evalExp obj self locals) (\<lambda>ob.
     bnd (ensureSafeObject ob (p_text p)) (\<lambda>safe.
     bnd (getRuntimeHooks locals) (\<lambda>hooks.
     bnd (hookOf hooks ''writeIndexHook'') (\<lambda>hook.
       if truthy hook then
         bnd (getProp hooks ''writeIndexHook'') (\<lambda>f.
           invoke (p_host p) f hooks [safe, key, value])
       else bnd (setProp safe (showVal (p_host p) key) value) (\<lambda>_. ret value)))))))"

text \<open>
  \<^verbatim>\<open>getterFn(field, ...)\<close> for the text of a token, which is a number for a number token
  and \<^verbatim>\<open>undefined\<close> when there is no token: then the cache is asked under the text of the
  value, and \<^verbatim>\<open>path.split\<close> fails.
\<close>

definition getterFnOf ::
  "host \<Rightarrow> val \<Rightarrow> string \<Rightarrow> getterCache \<Rightarrow> (error + getter) \<times> getterCache" where
  "getterFnOf h path fullExp cache =
     (case path of
        Str s \<Rightarrow> getterFn h s fullExp cache
      | _ \<Rightarrow> (case cache (showVal h path) of
                Some fn \<Rightarrow> (Inr fn, cache)
              | None \<Rightarrow> (Inl (TypeError ''path.split is not a function''), cache)))"

definition setterOf :: "host \<Rightarrow> val \<Rightarrow> val \<Rightarrow> val \<Rightarrow> string \<Rightarrow> val \<Rightarrow> val M" where
  "setterOf h obj path setValue fullExp locals =
     (case path of
        Str s \<Rightarrow> setter h obj s setValue fullExp locals
      | _ \<Rightarrow> throw (TypeError ''path.split is not a function''))"

definition fieldAccess :: "parser \<Rightarrow> cexp \<Rightarrow> cexp P" where
  "fieldAccess p object =
     bndP (expect []) (\<lambda>t.
       let field = (case t of Some tok \<Rightarrow> tok_text tok | None \<Rightarrow> Undefined) in
       (\<lambda>ts c.
          case getterFnOf (p_host p) field (p_text p) c of
            (Inl e, c') \<Rightarrow> Some (Inl e, ts, c')
          | (Inr getter, c') \<Rightarrow>
              Some (Inr \<lparr>run = (\<lambda>scope locals self b.
                            bnd (case self of
                                   ArgVal v \<Rightarrow>
                                     if truthy v then ret v else evalExp object scope locals
                                 | ArgNone \<Rightarrow> evalExp object scope locals
                                 | _ \<Rightarrow> throw (TypeError ''a function is not a value of the model''))
                              (\<lambda>v. getter v Undefined)),
                          isConstant = False, isLiteral = False,
                          assign = Some (\<lambda>scope value locals.
                            bnd (evalExp object scope locals) (\<lambda>ob.
                              setterOf (p_host p) ob field value (p_text p) locals))\<rparr>, ts, c')))"


text \<open>
  The parsing functions. Where the source calls \<^verbatim>\<open>this.expression()\<close> for a nested
  expression, the function takes the parser \<open>expression\<close> to call; the functions of the
  operator levels take the parser \<open>prim\<close> for \<^verbatim>\<open>this.primary()\<close>. A loop of the source is a recursive
  function with the values it carries.
\<close>

fun argsLoop :: "nat \<Rightarrow> cexp P \<Rightarrow> cexp list \<Rightarrow> cexp list P" where
  "argsLoop n expression argsFn =
     (if n = 0 then outOfFuel
      else bndP expression (\<lambda>e.
           bndP (expect ['','']) (\<lambda>t.
             case t of
               Some _ \<Rightarrow> argsLoop (n - 1) expression (argsFn @ [e])
             | None \<Rightarrow> retP (argsFn @ [e]))))"

definition functionCall :: "parser \<Rightarrow> nat \<Rightarrow> cexp P \<Rightarrow> cexp \<Rightarrow> cexp option \<Rightarrow> cexp P" where
  "functionCall p n expression fn contextGetter =
     (if disallowFunctionCalls (p_options p) then
        throwP (throwError p ''Function calls are not allowed'' UndefinedArg)
      else
        bndP (peekToken p) (\<lambda>t.
        bndP (if tok_text t \<noteq> Str '')'' then argsLoop n expression [] else retP []) (\<lambda>argsFn.
        bndP (consume p '')'') (\<lambda>_.
          retP (plainFn (callFn p fn contextGetter argsFn))))))"

definition objectIndex :: "parser \<Rightarrow> cexp P \<Rightarrow> cexp \<Rightarrow> cexp P" where
  "objectIndex p expression obj =
     bndP expression (\<lambda>indexFn.
     bndP (consume p '']'') (\<lambda>_.
       retP \<lparr>run = indexRun p obj indexFn, isConstant = False, isLiteral = False,
             assign = Some (indexAssign p obj indexFn)\<rparr>))"

fun elementsLoop :: "nat \<Rightarrow> cexp P \<Rightarrow> cexp list \<Rightarrow> cexp list P" where
  "elementsLoop n expression elementFns =
     (if n = 0 then outOfFuel
      else bndP (peekFor ['']'']) (\<lambda>q.
             case q of
               Some _ \<Rightarrow> retP elementFns
             | None \<Rightarrow>
                 bndP expression (\<lambda>elementFn.
                 bndP (expect ['','']) (\<lambda>t.
                   case t of
                     Some _ \<Rightarrow> elementsLoop (n - 1) expression (elementFns @ [elementFn])
                   | None \<Rightarrow> retP (elementFns @ [elementFn])))))"

definition arrayDeclaration :: "parser \<Rightarrow> nat \<Rightarrow> cexp P \<Rightarrow> cexp P" where
  "arrayDeclaration p n expression =
     bndP (peekToken p) (\<lambda>t.
     bndP (if tok_text t \<noteq> Str '']'' then elementsLoop n expression [] else retP []) (\<lambda>elementFns.
     bndP (consume p '']'') (\<lambda>_.
       retP \<lparr>run = (\<lambda>self locals a b.
                bnd (newObject [''length'' \<mapsto> Num 0]) (\<lambda>array.
                bnd (pushAll array elementFns self locals) (\<lambda>_. ret array))),
             isConstant = list_all isConstant elementFns, isLiteral = True, assign = None\<rparr>)))"

fun keyValuesLoop :: "parser \<Rightarrow> nat \<Rightarrow> cexp P \<Rightarrow> (val \<times> cexp) list \<Rightarrow> (val \<times> cexp) list P" where
  "keyValuesLoop p n expression keyValues =
     (if n = 0 then outOfFuel
      else bndP (peekFor [''}'']) (\<lambda>q.
             case q of
               Some _ \<Rightarrow> retP keyValues
             | None \<Rightarrow>
                 bndP (expect []) (\<lambda>token.
                   let key = (case token of
                                None \<Rightarrow> Undefined
                              | Some t \<Rightarrow>
                                  (case tok_string t of
                                     Some s \<Rightarrow> if s \<noteq> [] then Str s else tok_text t
                                   | None \<Rightarrow> tok_text t))
                   in
                   bndP (consume p '':'') (\<lambda>_.
                   bndP expression (\<lambda>value.
                   bndP (expect ['','']) (\<lambda>t.
                     case t of
                       Some _ \<Rightarrow> keyValuesLoop p (n - 1) expression (keyValues @ [(key, value)])
                     | None \<Rightarrow> retP (keyValues @ [(key, value)])))))))"

fun setAll :: "host \<Rightarrow> val \<Rightarrow> (val \<times> cexp) list \<Rightarrow> val \<Rightarrow> val \<Rightarrow> unit M" where
  "setAll h object [] self locals = ret ()"
| "setAll h object ((key, value) # keyValues) self locals =
     bnd (evalExp value self locals) (\<lambda>v.
     bnd (setProp object (showVal h key) v) (\<lambda>_. setAll h object keyValues self locals))"

definition object :: "parser \<Rightarrow> nat \<Rightarrow> cexp P \<Rightarrow> cexp P" where
  "object p n expression =
     bndP (peekToken p) (\<lambda>t.
     bndP (if tok_text t \<noteq> Str ''}'' then keyValuesLoop p n expression [] else retP []) (\<lambda>keyValues.
     bndP (consume p ''}'') (\<lambda>_.
       retP \<lparr>run = (\<lambda>self locals a b.
                bnd (newObject Map.empty) (\<lambda>object.
                bnd (setAll (p_host p) object keyValues self locals) (\<lambda>_. ret object))),
             isConstant = list_all (\<lambda>kv. isConstant (snd kv)) keyValues, isLiteral = True,
             assign = None\<rparr>)))"

fun filterArgsLoop :: "nat \<Rightarrow> cexp P \<Rightarrow> cexp list \<Rightarrow> cexp list P" where
  "filterArgsLoop n expression argsFn =
     (if n = 0 then outOfFuel
      else bndP (expect ['':'']) (\<lambda>t.
             case t of
               Some _ \<Rightarrow> bndP expression (\<lambda>e. filterArgsLoop (n - 1) expression (argsFn @ [e]))
             | None \<Rightarrow> retP argsFn))"

definition fnInvoke :: "host \<Rightarrow> val option \<Rightarrow> cexp list \<Rightarrow> val \<Rightarrow> val \<Rightarrow> val \<Rightarrow> val M" where
  "fnInvoke h fn argsFn = (\<lambda>self locals input.
     bnd (evalAll argsFn self locals) (\<lambda>args.
       case fn of
         Some f \<Rightarrow> invoke h f self (input # args)
       | None \<Rightarrow> throw (TypeError ''Cannot read property of undefined or null'')))"

definition filter :: "parser \<Rightarrow> nat \<Rightarrow> cexp P \<Rightarrow> (val \<Rightarrow> val \<Rightarrow> val \<Rightarrow> val M) P" where
  "filter p n expression =
     bndP (expect []) (\<lambda>token.
       let fn = filters (p_options p)
                  (showVal (p_host p) (case token of Some t \<Rightarrow> tok_text t | None \<Rightarrow> Undefined))
       in bndP (filterArgsLoop n expression []) (\<lambda>argsFn. retP (fnInvoke (p_host p) fn argsFn)))"

fun filterChainLoop :: "parser \<Rightarrow> nat \<Rightarrow> cexp P \<Rightarrow> cexp \<Rightarrow> cexp P" where
  "filterChainLoop p n expression left =
     (if n = 0 then outOfFuel
      else bndP (expect [''|'']) (\<lambda>t.
             case t of
               None \<Rightarrow> retP left
             | Some token \<Rightarrow>
                 bndP (filter p n expression) (\<lambda>right.
                   filterChainLoop p (n - 1) expression (binaryFnFilter left (tokenFn token) right))))"

definition filterChain :: "parser \<Rightarrow> nat \<Rightarrow> cexp P \<Rightarrow> cexp P" where
  "filterChain p n expression = bndP expression (filterChainLoop p n expression)"

fun primaryLoop :: "parser \<Rightarrow> nat \<Rightarrow> cexp P \<Rightarrow> cexp \<Rightarrow> cexp option \<Rightarrow> cexp P" where
  "primaryLoop p n expression primary context =
     (if n = 0 then outOfFuel
      else bndP (expect [''('', ''['', ''.'']) (\<lambda>next.
             case next of
               None \<Rightarrow> retP primary
             | Some t \<Rightarrow>
                 if tok_text t = Str ''('' then
                   bndP (functionCall p n expression primary context) (\<lambda>primary'.
                     primaryLoop p (n - 1) expression primary' None)
                 else if tok_text t = Str ''['' then
                   bndP (objectIndex p expression primary) (\<lambda>primary'.
                     primaryLoop p (n - 1) expression primary' (Some primary))
                 else if tok_text t = Str ''.'' then
                   bndP (fieldAccess p primary) (\<lambda>primary'.
                     primaryLoop p (n - 1) expression primary' (Some primary))
                 else throwP (throwError p ''IMPOSSIBLE'' UndefinedArg)))"

definition primary :: "parser \<Rightarrow> nat \<Rightarrow> cexp P \<Rightarrow> cexp P" where
  "primary p n expression =
     bndP
       (bndP (expect [''('']) (\<lambda>t1.
          case t1 of
            Some _ \<Rightarrow>
              bndP (filterChain p n expression) (\<lambda>e. bndP (consume p '')'') (\<lambda>_. retP e))
          | None \<Rightarrow>
              bndP (expect [''['']) (\<lambda>t2.
                case t2 of
                  Some _ \<Rightarrow> arrayDeclaration p n expression
                | None \<Rightarrow>
                    bndP (expect [''{'']) (\<lambda>t3.
                      case t3 of
                        Some _ \<Rightarrow> object p n expression
                      | None \<Rightarrow>
                          bndP (expect []) (\<lambda>token.
                            case token of
                              None \<Rightarrow> throwP (throwError p ''not a primary expression'' FalseArg)
                            | Some tok \<Rightarrow>
                                (case tok_fn tok of
                                   None \<Rightarrow>
                                     throwP (throwError p ''not a primary expression''
                                               (TokenArg tok))
                                 | Some f \<Rightarrow>
                                     retP (if tok_json tok
                                           then f\<lparr>isConstant := True, isLiteral := True\<rparr>
                                           else f)))))))
       (\<lambda>e. primaryLoop p n expression e None)"


declare argsLoop.simps [simp del] elementsLoop.simps [simp del] keyValuesLoop.simps [simp del]
  filterArgsLoop.simps [simp del] filterChainLoop.simps [simp del] primaryLoop.simps [simp del]

fun unary :: "nat \<Rightarrow> cexp P \<Rightarrow> cexp P" where
  "unary n prim =
     (if n = 0 then outOfFuel
      else bndP (expect [''+'']) (\<lambda>t1.
             case t1 of
               Some _ \<Rightarrow> prim
             | None \<Rightarrow>
                 bndP (expect [''-'']) (\<lambda>t2.
                   case t2 of
                     Some token \<Rightarrow>
                       bndP (unary (n - 1) prim) (\<lambda>right.
                         retP (binaryFn ZERO (tokenFn token) right))
                   | None \<Rightarrow>
                       bndP (expect [''!'']) (\<lambda>t3.
                         case t3 of
                           Some token \<Rightarrow>
                             bndP (unary (n - 1) prim) (\<lambda>right.
                               retP (unaryFn (tokenFn token) right))
                         | None \<Rightarrow> prim))))"

fun multiplicativeLoop :: "nat \<Rightarrow> cexp P \<Rightarrow> cexp \<Rightarrow> cexp P" where
  "multiplicativeLoop n prim left =
     (if n = 0 then outOfFuel
      else bndP (expect [''*'', ''/'', ''%'']) (\<lambda>t.
             case t of
               None \<Rightarrow> retP left
             | Some token \<Rightarrow>
                 bndP (unary n prim) (\<lambda>right.
                   multiplicativeLoop (n - 1) prim (binaryFn left (tokenFn token) right))))"

definition multiplicative :: "nat \<Rightarrow> cexp P \<Rightarrow> cexp P" where
  "multiplicative n prim = bndP (unary n prim) (multiplicativeLoop n prim)"

fun additiveLoop :: "nat \<Rightarrow> cexp P \<Rightarrow> cexp \<Rightarrow> cexp P" where
  "additiveLoop n prim left =
     (if n = 0 then outOfFuel
      else bndP (expect [''+'', ''-'']) (\<lambda>t.
             case t of
               None \<Rightarrow> retP left
             | Some token \<Rightarrow>
                 bndP (multiplicative n prim) (\<lambda>right.
                   additiveLoop (n - 1) prim (binaryFn left (tokenFn token) right))))"

definition additive :: "nat \<Rightarrow> cexp P \<Rightarrow> cexp P" where
  "additive n prim = bndP (multiplicative n prim) (additiveLoop n prim)"

fun relational :: "nat \<Rightarrow> cexp P \<Rightarrow> cexp P" where
  "relational n prim =
     (if n = 0 then outOfFuel
      else bndP (additive n prim) (\<lambda>left.
           bndP (expect [''<'', ''>'', ''<='', ''>='']) (\<lambda>t.
             case t of
               Some token \<Rightarrow>
                 bndP (relational (n - 1) prim) (\<lambda>right.
                   retP (binaryFn left (tokenFn token) right))
             | None \<Rightarrow> retP left)))"

fun equality :: "nat \<Rightarrow> cexp P \<Rightarrow> cexp P" where
  "equality n prim =
     (if n = 0 then outOfFuel
      else bndP (relational n prim) (\<lambda>left.
           bndP (expect [''=='', ''!='', ''==='', ''!=='']) (\<lambda>t.
             case t of
               Some token \<Rightarrow>
                 bndP (equality (n - 1) prim) (\<lambda>right.
                   retP (binaryFn left (tokenFn token) right))
             | None \<Rightarrow> retP left)))"

fun logicalAND :: "nat \<Rightarrow> cexp P \<Rightarrow> cexp P" where
  "logicalAND n prim =
     (if n = 0 then outOfFuel
      else bndP (equality n prim) (\<lambda>left.
           bndP (expect [''&&'']) (\<lambda>t.
             case t of
               Some token \<Rightarrow>
                 bndP (logicalAND (n - 1) prim) (\<lambda>right.
                   retP (binaryFn left (tokenFn token) right))
             | None \<Rightarrow> retP left)))"

fun logicalORLoop :: "nat \<Rightarrow> cexp P \<Rightarrow> cexp \<Rightarrow> cexp P" where
  "logicalORLoop n prim left =
     (if n = 0 then outOfFuel
      else bndP (expect [''||'']) (\<lambda>t.
             case t of
               None \<Rightarrow> retP left
             | Some token \<Rightarrow>
                 bndP (logicalAND n prim) (\<lambda>right.
                   logicalORLoop (n - 1) prim (binaryFn left (tokenFn token) right))))"

definition logicalOR :: "nat \<Rightarrow> cexp P \<Rightarrow> cexp P" where
  "logicalOR n prim = bndP (logicalAND n prim) (logicalORLoop n prim)"

fun ternary :: "parser \<Rightarrow> nat \<Rightarrow> cexp P \<Rightarrow> cexp P" where
  "ternary p n prim =
     (if n = 0 then outOfFuel
      else bndP (logicalOR n prim) (\<lambda>left.
           bndP (expect [''?'']) (\<lambda>t.
             case t of
               Some _ \<Rightarrow>
                 bndP (ternary p (n - 1) prim) (\<lambda>middle.
                 bndP (expect ['':'']) (\<lambda>t'.
                   case t' of
                     Some _ \<Rightarrow>
                       bndP (ternary p (n - 1) prim) (\<lambda>right.
                         retP (ternaryFn left middle right))
                   | None \<Rightarrow> throwP (throwError p ''expected :'' FalseArg)))
             | None \<Rightarrow> retP left)))"

definition assignment :: "parser \<Rightarrow> nat \<Rightarrow> cexp P \<Rightarrow> cexp P" where
  "assignment p n prim =
     bndP (ternary p n prim) (\<lambda>left.
     bndP (expect [''='']) (\<lambda>t.
       case t of
         Some token \<Rightarrow>
           (case assign left of
              None \<Rightarrow>
                throwP (throwError p
                  (''implies assignment but ['' @ substring (p_text p) 0 (tok_index token)
                     @ ''] can not be assigned to'') (TokenArg token))
            | Some leftAssign \<Rightarrow>
                bndP (ternary p n prim) (\<lambda>right.
                  retP (plainFn (\<lambda>scope locals a b.
                    bnd (evalExp right scope locals) (\<lambda>v. leftAssign scope v locals)))))
       | None \<Rightarrow> retP left))"

declare unary.simps [simp del] multiplicativeLoop.simps [simp del] additiveLoop.simps [simp del]
  relational.simps [simp del] equality.simps [simp del] logicalAND.simps [simp del]
  logicalORLoop.simps [simp del] ternary.simps [simp del]

text \<open>
  \<^verbatim>\<open>expression\<close>: a nested expression is parsed with one unit of fuel less.
\<close>

fun expression :: "parser \<Rightarrow> nat \<Rightarrow> cexp P" where
  "expression p n ts c =
     (if n = 0 then None
      else assignment p n (primary p n (expression p (n - 1))) ts c)"

declare expression.simps [simp del]

text \<open>The function that \<^verbatim>\<open>statements\<close> returns for no or several statements.\<close>

fun runStatements :: "cexp list \<Rightarrow> val \<Rightarrow> val \<Rightarrow> val \<Rightarrow> val M" where
  "runStatements [] self locals value = ret value"
| "runStatements (statement # statements) self locals value =
     bnd (evalExp statement self locals) (\<lambda>v. runStatements statements self locals v)"

fun statementsLoop :: "parser \<Rightarrow> nat \<Rightarrow> cexp list \<Rightarrow> cexp P" where
  "statementsLoop p n statements =
     (if n = 0 then outOfFuel
      else bndP (\<lambda>ts c.
                  if ts \<noteq> [] \<and> \<not> tokenIs [''}'', '')'', '';'', '']''] (hd ts) then
                    bndP (filterChain p n (expression p n)) (\<lambda>e. retP (statements @ [e])) ts c
                  else retP statements ts c) (\<lambda>statements.
           bndP (expect ['';'']) (\<lambda>t.
             case t of
               Some _ \<Rightarrow> statementsLoop p (n - 1) statements
             | None \<Rightarrow>
                 retP (if length statements = 1 then hd statements
                       else plainFn (\<lambda>self locals a b.
                              runStatements statements self locals Undefined)))))"

declare statementsLoop.simps [simp del]

definition statements :: "parser \<Rightarrow> nat \<Rightarrow> cexp P" where
  "statements p n = statementsLoop p n []"

text \<open>
  \<^verbatim>\<open>parse\<close>, with the fuel \<open>n\<close>. The properties \<^verbatim>\<open>literal\<close> and \<^verbatim>\<open>constant\<close> are already kept
  as conditions.
\<close>

definition parse ::
  "parser \<Rightarrow> nat \<Rightarrow> getterCache \<Rightarrow> ((error + cexp) \<times> getterCache) option" where
  "parse p n cache =
     (case lex (p_host p) (p_text p) cache of
        (Inl e, cache') \<Rightarrow> Some (Inl e, cache')
      | (Inr tokens, cache') \<Rightarrow>
          (case statements p n tokens cache' of
             None \<Rightarrow> None
           | Some (Inl e, ts, cache'') \<Rightarrow> Some (Inl e, cache'')
           | Some (Inr value, ts, cache'') \<Rightarrow>
               (case ts of
                  t # _ \<Rightarrow> Some (Inl (throwError p ''is an unexpected token'' (TokenArg t)), cache'')
                | [] \<Rightarrow> Some (Inr value, cache''))))"

subsection \<open>The compiler\<close>

text \<open>
  The cache that a caller passes to \<^verbatim>\<open>compileExpression\<close> is an object of the caller's. It
  is read with \<^verbatim>\<open>cache[src]\<close>, which finds the own entries of the object and, where there is
  none, the members that the object inherits from its prototype: for an object literal
  the members of \<^verbatim>\<open>Object.prototype\<close>, such as \<^verbatim>\<open>toString\<close>. \<open>c_inherited\<close> holds the
  inherited members that are truthy, as the function objects they are. (An object that
  inherits the accessor \<^verbatim>\<open>__proto__\<close> reads its prototype under this key, which is truthy, so
  nothing is assigned under it.)
\<close>

record cacheObject =
  c_own :: "string \<rightharpoonup> cexp"
  c_inherited :: "string \<rightharpoonup> cexp"

definition cacheRead :: "cacheObject \<Rightarrow> string \<Rightarrow> cexp option" where
  "cacheRead cache src =
     (case c_own cache src of Some e \<Rightarrow> Some e | None \<Rightarrow> c_inherited cache src)"

text \<open>
  \<^verbatim>\<open>compileExpression(src, options, cache)\<close>. \<open>cache\<close> is the caller's object, \<open>None\<close> when
  it is omitted; it is returned with the result, as is the getter cache of the module. An
  own entry of the cache is a compiled expression, so truthy.
\<close>

definition compileExpression ::
  "host \<Rightarrow> nat \<Rightarrow> val \<Rightarrow> options option \<Rightarrow> cacheObject option \<Rightarrow> getterCache
     \<Rightarrow> ((error + cexp) \<times> cacheObject option \<times> getterCache) option" where
  "compileExpression h n src opts cache getterFnCache =
     (case src of
        Str text \<Rightarrow>
          (let p = \<lparr>p_host = h, p_text = text,
                    p_options = (case opts of
                                   Some os \<Rightarrow> os
                                 | None \<Rightarrow> \<lparr>filters = Map.empty, disallowFunctionCalls = False\<rparr>)\<rparr>
           in case cache of
                None \<Rightarrow>
                  (case parse p n getterFnCache of
                     None \<Rightarrow> None
                   | Some (r, g) \<Rightarrow> Some (r, None, g))
              | Some m \<Rightarrow>
                  (case cacheRead m text of
                     Some cached \<Rightarrow> Some (Inr cached, cache, getterFnCache)
                   | None \<Rightarrow>
                       (case parse p n getterFnCache of
                          None \<Rightarrow> None
                        | Some (Inl e, g) \<Rightarrow> Some (Inl e, cache, g)
                        | Some (Inr cached, g) \<Rightarrow>
                            Some (Inr cached, Some (m\<lparr>c_own := (c_own m)(text \<mapsto> cached)\<rparr>), g))))
      | _ \<Rightarrow>
          Some (Inl (TypeError (''src must be a string, instead saw '' @ [CHR 0x27] @ typeOf src
                       @ [CHR 0x27])), cache, getterFnCache))"





text \<open>
  Vocabulary for the properties of the compiler. \<open>compiledGetter\<close> is the getter that
  \<^verbatim>\<open>getterFn\<close> builds for a path that the cache does not hold. A getter cache is valid when
  calls of \<^verbatim>\<open>getterFn\<close> can have filled it: it has no entry under \<^verbatim>\<open>hasOwnProperty\<close>, and
  each entry is the getter compiled for its path, for some expression text.
\<close>

definition compiledGetter :: "host \<Rightarrow> string \<Rightarrow> string \<Rightarrow> error + getter" where
  "compiledGetter h path fullExp = fst (getterFn h path fullExp Map.empty)"

definition validCache :: "host \<Rightarrow> getterCache \<Rightarrow> bool" where
  "validCache h c =
     (\<forall>path fn. c path = Some fn \<longrightarrow>
        path \<noteq> ''hasOwnProperty'' \<and> (\<exists>fullExp. compiledGetter h path fullExp = Inr fn))"

text \<open>
  A host for the concrete instances: its functions return \<^verbatim>\<open>undefined\<close> and leave the heap
  as it is, its operators and conversions give \<^verbatim>\<open>NaN\<close>.
\<close>

definition plainHost :: host where
  "plainHost =
     \<lparr>call = (\<lambda>a this args hp. (Inr Undefined, hp)),
      binop = (\<lambda>op a b hp. (Inr NaN, hp)),
      toNumber = (\<lambda>s. NaN),
      toString = (\<lambda>v. ''NaN'')\<rparr>"

text \<open>
  The errors of the sandbox guard, as \<^verbatim>\<open>ensureSafeMemberName\<close> and \<^verbatim>\<open>ensureSafeObject\<close> raise
  them for an expression text (see \<open>ensureSafeMemberName_constructor\<close> and
  \<open>ensureSafeObject_function\<close>).
\<close>

definition reservedNameError :: "string \<Rightarrow> error" where
  "reservedNameError fullExp =
     SyntaxError (''Referencing '' @ [CHR 0x22] @ ''constructor'' @ [CHR 0x22]
       @ '' field in WebRx expressions is disallowed! Expression: '' @ fullExp)"

definition functionObjectError :: "string \<Rightarrow> error" where
  "functionObjectError fullExp =
     SyntaxError (''Referencing Function in WebRx expressions is disallowed! Expression: ''
       @ fullExp)"

text \<open>
  The rule for a slash as the specification words it: the slash is the division operator
  when the end of the previous token matches the look-behind pattern and the match is not
  the keyword \<^verbatim>\<open>in\<close> or \<^verbatim>\<open>return\<close>. It is compared with \<open>slashIsDivision\<close>, the test of the
  source.
\<close>

definition specSlashIsDivision :: "string \<Rightarrow> bool" where
  "specSlashIsDivision prev =
     (case divisionLookBehind prev of
        None \<Rightarrow> False
      | Some m \<Rightarrow> m \<noteq> ''in'' \<and> m \<noteq> ''return'')"

text \<open>The texts of the tokens that the lexer returns for a text, with an empty getter cache.\<close>

definition lexTexts :: "host \<Rightarrow> string \<Rightarrow> error + val list" where
  "lexTexts h tx = map_sum id (map tok_text) (fst (lex h tx Map.empty))"


section \<open>Properties\<close>

subsection \<open>The object-literal tokenizer\<close>























subsection \<open>The getter cache\<close>

lemma validCache_empty: "validCache h Map.empty"
  by (simp add: validCache_def)

lemma compiledGetter_eq:
  "compiledGetter h path fullExp =
     (let pathKeys = splitDots path; pathKeysLength = length pathKeys in
        if pathKeysLength = 1 then simpleGetterFn1 h (keyAt pathKeys 0) fullExp
        else if pathKeysLength = 2 then
          simpleGetterFn2 h (keyAt pathKeys 0) (keyAt pathKeys 1) fullExp
        else if pathKeysLength < 6 then
          cspSafeGetterFn h (keyAt pathKeys 0) (keyAt pathKeys 1) (keyAt pathKeys 2)
            (keyAt pathKeys 3) (keyAt pathKeys 4) fullExp
        else Inr (longGetter h pathKeys fullExp))"
  by (simp add: compiledGetter_def getterFn_def Let_def split: sum.splits)

text \<open>
  A call of \<^verbatim>\<open>getterFn\<close> in terms of the cache and of the compiled getter: a hit returns
  the entry, a miss compiles the getter and stores it unless the path is \<^verbatim>\<open>hasOwnProperty\<close>
  or \<^verbatim>\<open>__proto__\<close>.
\<close>

lemma getterFn_eq:
  "getterFn h path e c =
     (case c path of
        Some fn \<Rightarrow> (Inr fn, c)
      | None \<Rightarrow>
          (case compiledGetter h path e of
             Inl err \<Rightarrow> (Inl err, c)
           | Inr fn \<Rightarrow>
               (Inr fn,
                if path \<noteq> ''hasOwnProperty'' \<and> path \<noteq> ''__proto__'' then c(path \<mapsto> fn) else c)))"
  by (simp add: compiledGetter_def getterFn_def setEntry_def Let_def
        split: sum.splits option.splits)

lemma getterFn_validCache:
  assumes "validCache h c"
  shows "validCache h (snd (getterFn h path e c))"
  using assms
  by (auto simp add: getterFn_eq validCache_def split: option.splits sum.splits)

text \<open>
  The getter of a path of fewer than six keys does not depend on the expression text, which
  only the error of a reserved key carries.
\<close>

lemma compiledGetter_short:
  assumes "length (splitDots path) < 6" "compiledGetter h path e0 = Inr fn"
  shows "compiledGetter h path e = Inr fn"
  using assms
  by (auto simp add: compiledGetter_eq Let_def simpleGetterFn1_def simpleGetterFn2_def
       cspSafeGetterFn_def ensureSafeMemberName_def bndE_def split: if_splits sum.splits)

lemma getterFn_valid:
  assumes "validCache h c" "length (splitDots path) < 6" "path \<noteq> ''hasOwnProperty''"
    "compiledGetter h path e = Inr fn" "path \<noteq> ''__proto__''"
  shows "getterFn h path e c = (Inr fn, c(path \<mapsto> fn))"
proof (cases "c path")
  case None
  then show ?thesis
    using assms(3,4,5) by (simp add: getterFn_eq)
next
  case (Some fn')
  with assms(1) obtain e0 where "compiledGetter h path e0 = Inr fn'"
    by (auto simp add: validCache_def)
  then have "compiledGetter h path e = Inr fn'"
    using assms(2) compiledGetter_short by blast
  then have "fn' = fn"
    using assms(4) by simp
  moreover have "c(path \<mapsto> fn') = c"
    using Some by (simp add: fun_upd_idem)
  ultimately show ?thesis
    using Some by (simp add: getterFn_eq)
qed

lemma validCache_upd:
  assumes "validCache h c" "path \<noteq> ''hasOwnProperty''" "compiledGetter h path e = Inr fn"
  shows "validCache h (c(path \<mapsto> fn))"
  using assms by (auto simp add: validCache_def)

text \<open>
  What holds of the cache. A getter cache without an entry under \<^verbatim>\<open>hasOwnProperty\<close> has
  none after a call of \<^verbatim>\<open>getterFn\<close>, whatever the path and the outcome. The getter that a
  call returns for a path other than \<^verbatim>\<open>hasOwnProperty\<close> and \<^verbatim>\<open>__proto__\<close> is then the entry
  of that path, and every later call for the path returns it and leaves the cache as it
  is. For the path \<^verbatim>\<open>hasOwnProperty\<close> every call compiles the getter and leaves the cache as
  it is.
\<close>

lemma getterFn_cache_invariant:
  assumes "''hasOwnProperty'' \<notin> dom c"
  shows "''hasOwnProperty'' \<notin> dom (snd (getterFn h path e c))"
    and "getterFn h path e c = (Inr fn, c') \<Longrightarrow> path \<noteq> ''hasOwnProperty''
           \<Longrightarrow> path \<noteq> ''__proto__''
           \<Longrightarrow> c' path = Some fn \<and> (\<forall>e'. getterFn h path e' c' = (Inr fn, c'))"
    and "getterFn h ''hasOwnProperty'' e c = (compiledGetter h ''hasOwnProperty'' e, c)"
    and "compiledGetter h ''hasOwnProperty'' e = Inr (simpleGetter1 h (Some ''hasOwnProperty''))"
  using assms
  by (auto simp add: getterFn_eq compiledGetter_eq simpleGetterFn1_def ensureSafeMemberName_def
        bndE_def keyAt_def dom_def split: option.splits sum.splits if_splits)

text \<open>
  C10. The getter compiled for the path \<^verbatim>\<open>__proto__\<close> is not stored: the assignment to the
  cache adds no entry under this key. From the empty cache a call for \<^verbatim>\<open>__proto__\<close> compiles
  the getter and returns the cache empty, so the next call compiles it again; a call for
  \<^verbatim>\<open>a\<close> returns the cache with the getter under \<^verbatim>\<open>a\<close>.
\<close>

theorem getterFn_does_not_store_proto_path:
  "getterFn h ''__proto__'' e Map.empty = (Inr (simpleGetter1 h (Some ''__proto__'')), Map.empty)
   \<and> getterFn h ''a'' e Map.empty
       = (Inr (simpleGetter1 h (Some ''a'')), [''a'' \<mapsto> simpleGetter1 h (Some ''a'')])"
  by (simp add: getterFn_eq compiledGetter_eq simpleGetterFn1_def ensureSafeMemberName_def
        bndE_def keyAt_def)

theorem getterFn_does_not_store_proto_path_witness:
  "snd (getterFn plainHost ''__proto__'' ''__proto__'' Map.empty) ''__proto__'' = None
   \<and> snd (getterFn plainHost ''__proto__'' ''__proto__''
          (snd (getterFn plainHost ''__proto__'' ''__proto__'' Map.empty))) = Map.empty"
  using getterFn_does_not_store_proto_path [of plainHost "''__proto__''"]
  by simp

subsection \<open>Running the lexer, the parser and a compiled expression on given input\<close>

text \<open>
  The equations that evaluate the lexer on a given text, the parser on given tokens (the
  parsing functions are unfolded where they are applied to the tokens and the cache), and
  a compiled expression on a scope, locals and a state.
\<close>

lemmas lex_defs = lex_def lexStep_def readIdent_def identToken_def lastDotOf_def methodParen_def
  plainToken_def readNumber_def readString_def literalToken_def numberOfText_def digitsValue_def
  isDigit_def digitValue_def isNumber_def isIdent_def isWhitespace_def peek_def isNumberPeek_def
  isExpOperator_def isExpOperatorPeek_def peekText_def lowercase_def OPERATORS_def
  simpleGetterFn1_def simpleGetterFn2_def cspSafeGetterFn_def ensureSafeMemberName_def
  keyAt_def bndE_def plainFn_def Let_def
  lexLoop.simps readNumberLoop.simps readStringLoop.simps

lemmas app2 = fun_cong [OF fun_cong]

lemmas parse_defs = compileExpression_def parse_def
  statements_def [THEN app2] statementsLoop.simps [THEN app2]
  filterChain_def [THEN app2] filterChainLoop.simps [THEN app2] expression.simps
  assignment_def [THEN app2] ternary.simps [THEN app2]
  logicalOR_def [THEN app2] logicalORLoop.simps [THEN app2] logicalAND.simps [THEN app2]
  equality.simps [THEN app2] relational.simps [THEN app2]
  additive_def [THEN app2] additiveLoop.simps [THEN app2] multiplicative_def [THEN app2]
  multiplicativeLoop.simps [THEN app2] unary.simps [THEN app2]
  primary_def [THEN app2] primaryLoop.simps [THEN app2] functionCall_def [THEN app2]
  argsLoop.simps [THEN app2] objectIndex_def [THEN app2] fieldAccess_def [THEN app2]
  arrayDeclaration_def [THEN app2] elementsLoop.simps [THEN app2] object_def [THEN app2]
  keyValuesLoop.simps [THEN app2] filter_def [THEN app2]
  filterArgsLoop.simps [THEN app2]
  bndP_def [THEN app2] retP_def [THEN app2] throwP_def [THEN app2] outOfFuel_def [THEN app2]
  expect_def [THEN app2] peekFor_def [THEN app2] peekToken_def [THEN app2] consume_def [THEN app2]
  tokenIs_def tokenFn_def binaryFn_def unaryFn_def ternaryFn_def binaryFnFilter_def

lemmas run_defs = evalExp_def asArg_def callArg_def bnd_def ret_def throw_def
  opPlus_def opMinus_def opStrictEq_def opStrictNe_def jsBinop_def exactArith_def compareNum_def
  isSafeInteger_def strictEq_def
  simpleGetter1_def simpleGetter2_def cspSafeGetter_def localsOrScope_def getRuntimeHooks_def
  hookOf_def getProp_def hasOwnProperty_def keyName_def keyTruthy_def isDefined_def isNullish_def
  field_def hookField_def

text \<open>
  \<^verbatim>\<open>getterFn\<close> on a valid cache, for a path of fewer than six keys: the getter compiled for
  the path is returned and is the entry of the path afterwards, and the cache stays valid.
\<close>

lemma validCache_upd_True:
  "validCache h c \<Longrightarrow> path \<noteq> ''hasOwnProperty'' \<Longrightarrow> compiledGetter h path [] = Inr fn
     \<Longrightarrow> validCache h (c(path \<mapsto> fn)) = True"
  using validCache_upd by simp

lemma getterFn_valid_short:
  "validCache h c \<Longrightarrow> length (splitDots path) < 6 \<Longrightarrow> path \<noteq> ''hasOwnProperty''
     \<Longrightarrow> path \<noteq> ''__proto__'' \<Longrightarrow> compiledGetter h path [] = Inr fn
     \<Longrightarrow> getterFn h path e c = (Inr fn, c(path \<mapsto> fn))"
  using getterFn_valid compiledGetter_short by blast

lemmas getter_defs = getterFn_valid_short validCache_upd_True compiledGetter_eq

subsection \<open>The compiler and its cache\<close>

text \<open>
  What holds of \<^verbatim>\<open>compileExpression\<close>. A source that is not a string gives the \<^verbatim>\<open>TypeError\<close>
  that names its type, and nothing is parsed or stored. With a cache: what \<^verbatim>\<open>cache[src]\<close>
  finds is returned, and both caches stay as they are; where it finds nothing the result is
  the one of the call without a cache, and a compiled expression becomes the own entry of
  the cache under the source text (an error stores nothing). Without a cache every call
  parses the source.
\<close>

lemma compileExpression_memo:
  shows "(\<forall>tx. src \<noteq> Str tx) \<Longrightarrow>
      compileExpression h n src opts cache g
        = Some (Inl (TypeError (''src must be a string, instead saw '' @ [CHR 0x27] @ typeOf src
                       @ [CHR 0x27])), cache, g)"
    and "cacheRead m tx = Some e \<Longrightarrow>
      compileExpression h n (Str tx) opts (Some m) g = Some (Inr e, Some m, g)"
    and "cacheRead m tx = None \<Longrightarrow>
        compileExpression h n (Str tx) opts (Some m) g
          = (case compileExpression h n (Str tx) opts None g of
               None \<Rightarrow> None
             | Some (Inl err, _, g') \<Rightarrow> Some (Inl err, Some m, g')
             | Some (Inr e, _, g') \<Rightarrow>
                 Some (Inr e, Some (m\<lparr>c_own := (c_own m)(tx \<mapsto> e)\<rparr>), g'))"
    and "compileExpression h n (Str tx) opts None g
        = (case parse \<lparr>p_host = h, p_text = tx,
                        p_options = (case opts of
                                       Some os \<Rightarrow> os
                                     | None \<Rightarrow> \<lparr>filters = Map.empty,
                                                 disallowFunctionCalls = False\<rparr>)\<rparr> n g of
             None \<Rightarrow> None
           | Some (r, g') \<Rightarrow> Some (r, None, g'))"
proof -
  show "(\<forall>tx. src \<noteq> Str tx) \<Longrightarrow>
      compileExpression h n src opts cache g
        = Some (Inl (TypeError (''src must be a string, instead saw '' @ [CHR 0x27] @ typeOf src
                       @ [CHR 0x27])), cache, g)"
    by (cases src) (simp_all add: compileExpression_def)
  show "cacheRead m tx = Some e \<Longrightarrow>
      compileExpression h n (Str tx) opts (Some m) g = Some (Inr e, Some m, g)"
    by (simp add: compileExpression_def)
  show "cacheRead m tx = None \<Longrightarrow>
        compileExpression h n (Str tx) opts (Some m) g
          = (case compileExpression h n (Str tx) opts None g of
               None \<Rightarrow> None
             | Some (Inl err, _, g') \<Rightarrow> Some (Inl err, Some m, g')
             | Some (Inr e, _, g') \<Rightarrow>
                 Some (Inr e, Some (m\<lparr>c_own := (c_own m)(tx \<mapsto> e)\<rparr>), g'))"
    by (simp add: compileExpression_def split: option.splits sum.splits prod.splits)
  show "compileExpression h n (Str tx) opts None g
        = (case parse \<lparr>p_host = h, p_text = tx,
                        p_options = (case opts of
                                       Some os \<Rightarrow> os
                                     | None \<Rightarrow> \<lparr>filters = Map.empty,
                                                 disallowFunctionCalls = False\<rparr>)\<rparr> n g of
             None \<Rightarrow> None
           | Some (r, g') \<Rightarrow> Some (r, None, g'))"
    by (simp add: compileExpression_def)
qed

text \<open>
  C8. With a cache that has no own entry under \<^verbatim>\<open>toString\<close> and inherits a member under this
  name, as the object literal \<^verbatim>\<open>{}\<close> does, \<^verbatim>\<open>compileExpression\<close> returns the inherited member
  for the source \<^verbatim>\<open>toString\<close>: nothing is parsed (no fuel is needed and the getter cache stays
  as it is) and nothing is stored. Without a cache the source is parsed, which adds its
  getter to the getter cache.
\<close>

theorem compileExpression_returns_inherited_member:
  "(c_own m ''toString'' = None \<and> c_inherited m ''toString'' = Some f \<longrightarrow>
      compileExpression h n (Str ''toString'') opts (Some m) g = Some (Inr f, Some m, g))
   \<and> (\<exists>e. compileExpression h (10 + k) (Str ''toString'') opts None Map.empty
             = Some (Inr e, None, [''toString'' \<mapsto> simpleGetter1 h (Some ''toString'')]))"
proof -
  have inherited: "c_own m ''toString'' = None \<and> c_inherited m ''toString'' = Some f \<longrightarrow>
      compileExpression h n (Str ''toString'') opts (Some m) g = Some (Inr f, Some m, g)"
    by (simp add: compileExpression_def cacheRead_def)
  have parsed: "\<exists>e. compileExpression h (10 + k) (Str ''toString'') opts None Map.empty
             = Some (Inr e, None, [''toString'' \<mapsto> simpleGetter1 h (Some ''toString'')])"
    by (simp add: lex_defs getterFn_eq compiledGetter_eq parse_defs)
  from inherited parsed show ?thesis
    by blast
qed

theorem compileExpression_returns_inherited_member_witness:
  "compileExpression plainHost 0 (Str ''toString'') None
       (Some \<lparr>c_own = Map.empty, c_inherited = [''toString'' \<mapsto> plainFn noop]\<rparr>) Map.empty
     = Some (Inr (plainFn noop),
             Some \<lparr>c_own = Map.empty, c_inherited = [''toString'' \<mapsto> plainFn noop]\<rparr>, Map.empty)"
  using compileExpression_returns_inherited_member [where h = plainHost and n = 0 and opts = None
      and g = Map.empty and f = "plainFn noop"
      and m = "\<lparr>c_own = Map.empty, c_inherited = [''toString'' \<mapsto> plainFn noop]\<rparr>"]
  by simp

subsection \<open>The operators\<close>

lemma isSafeInteger_zero: "isSafeInteger 0"
  by (simp add: isSafeInteger_def)

lemma isSafeInteger_minus: "isSafeInteger y \<Longrightarrow> isSafeInteger (- y)"
proof -
  assume a: "isSafeInteger y"
  from a have y: "of_int \<lfloor>y\<rfloor> = y"
    unfolding isSafeInteger_def by blast
  from a have bound: "\<bar>y\<bar> \<le> 9007199254740991"
    unfolding isSafeInteger_def by blast
  have "- y = of_int (- \<lfloor>y\<rfloor>)"
    by (metis of_int_minus y)
  then have "of_int \<lfloor>- y\<rfloor> = - y"
    by (metis floor_of_int)
  moreover have "\<bar>- y\<bar> \<le> 9007199254740991"
    using bound by (metis abs_minus_cancel)
  ultimately show ?thesis
    unfolding isSafeInteger_def by blast
qed

lemma binaryFn_run:
  "evalExp (binaryFn left fn right) self locals = fn self locals (asArg left) (asArg right)"
  by (simp add: evalExp_def binaryFn_def)

text \<open>
  C5. The node that the parser builds for \<^verbatim>\<open>left + right\<close> evaluates both operands, the left
  one first. When one of them is \<^verbatim>\<open>undefined\<close> the result is the value of the other one;
  when both are defined it is the host's sum. The node for \<^verbatim>\<open>left - right\<close> gives the host's
  difference of the two values with 0 in the place of each undefined one: \<^verbatim>\<open>0 - x\<close> for an
  undefined left operand, \<^verbatim>\<open>x - 0\<close> for an undefined right one, and for an integer \<open>y\<close> in
  the safe range these are \<open>-y\<close> and \<open>y\<close>. For every valid getter cache, \<^verbatim>\<open>a+b\<close> and \<^verbatim>\<open>a-b\<close>
  compile; for a scope with \<^verbatim>\<open>a\<close> undefined and \<^verbatim>\<open>b\<close> equal to 5 and locals without
  properties they evaluate to 5 and to -5, for a scope with \<^verbatim>\<open>a\<close> equal to 5 and \<^verbatim>\<open>b\<close>
  undefined both evaluate to 5, and the state stays as it is.
\<close>

theorem plus_minus_with_undefined_operand:
  "(evalExp left self locals s = (Inr a, s1) \<and> evalExp right self locals s1 = (Inr b, s2)
      \<longrightarrow> evalExp (binaryFn left (opPlus h) right) self locals s
            = (if isDefined a \<and> isDefined b then jsBinop h ''+'' a b s2
               else if isDefined a then (Inr a, s2) else (Inr b, s2))
        \<and> evalExp (binaryFn left (opMinus h) right) self locals s
            = jsBinop h ''-'' (if isDefined a then a else Num 0) (if isDefined b then b else Num 0) s2)
   \<and> (evalExp left self locals s = (Inr Undefined, s1) \<and> evalExp right self locals s1 = (Inr x, s2)
      \<longrightarrow> evalExp (binaryFn left (opPlus h) right) self locals s = (Inr x, s2)
        \<and> evalExp (binaryFn left (opMinus h) right) self locals s
            = jsBinop h ''-'' (Num 0) (if isDefined x then x else Num 0) s2)
   \<and> (evalExp left self locals s = (Inr x, s1) \<and> evalExp right self locals s1 = (Inr Undefined, s2)
      \<longrightarrow> evalExp (binaryFn left (opPlus h) right) self locals s = (Inr x, s2)
        \<and> evalExp (binaryFn left (opMinus h) right) self locals s
            = jsBinop h ''-'' (if isDefined x then x else Num 0) (Num 0) s2)
   \<and> (isSafeInteger y \<longrightarrow> jsBinop h ''-'' (Num 0) (Num y) s2 = (Inr (Num (- y)), s2)
        \<and> jsBinop h ''-'' (Num y) (Num 0) s2 = (Inr (Num y), s2))
   \<and> OPERATORS h ''+'' = Some (opPlus h) \<and> OPERATORS h ''-'' = Some (opMinus h)
   \<and> (validCache h c \<and> \<not> isNullish scope \<and> field s scope ''a'' = Undefined
        \<and> field s scope ''b'' = Num 5 \<and> locals \<noteq> Null \<and> ownProps s locals = Map.empty
      \<longrightarrow> (\<exists>e g. compileExpression h (10 + k) (Str ''a+b'') opts None c = Some (Inr e, None, g)
                \<and> evalExp e scope locals s = (Inr (Num 5), s))
        \<and> (\<exists>e g. compileExpression h (10 + k) (Str ''a-b'') opts None c = Some (Inr e, None, g)
                \<and> evalExp e scope locals s = (Inr (Num (- 5)), s)))
   \<and> (validCache h c \<and> \<not> isNullish scope \<and> field s scope ''a'' = Num 5
        \<and> field s scope ''b'' = Undefined \<and> locals \<noteq> Null \<and> ownProps s locals = Map.empty
      \<longrightarrow> (\<exists>e g. compileExpression h (10 + k) (Str ''a+b'') opts None c = Some (Inr e, None, g)
                \<and> evalExp e scope locals s = (Inr (Num 5), s))
        \<and> (\<exists>e g. compileExpression h (10 + k) (Str ''a-b'') opts None c = Some (Inr e, None, g)
                \<and> evalExp e scope locals s = (Inr (Num 5), s)))"
proof -
  have node:
    "evalExp left self locals s = (Inr a, s1) \<and> evalExp right self locals s1 = (Inr b, s2)
      \<longrightarrow> evalExp (binaryFn left (opPlus h) right) self locals s
            = (if isDefined a \<and> isDefined b then jsBinop h ''+'' a b s2
               else if isDefined a then (Inr a, s2) else (Inr b, s2))
        \<and> evalExp (binaryFn left (opMinus h) right) self locals s
            = jsBinop h ''-'' (if isDefined a then a else Num 0) (if isDefined b then b else Num 0) s2"
    by (simp add: binaryFn_run opPlus_def opMinus_def asArg_def callArg_def bnd_def ret_def
          isDefined_def)
  have left_undefined:
    "evalExp left self locals s = (Inr Undefined, s1) \<and> evalExp right self locals s1 = (Inr x, s2)
      \<longrightarrow> evalExp (binaryFn left (opPlus h) right) self locals s = (Inr x, s2)
        \<and> evalExp (binaryFn left (opMinus h) right) self locals s
            = jsBinop h ''-'' (Num 0) (if isDefined x then x else Num 0) s2"
    by (simp add: binaryFn_run opPlus_def opMinus_def asArg_def callArg_def bnd_def ret_def
          isDefined_def)
  have right_undefined:
    "evalExp left self locals s = (Inr x, s1) \<and> evalExp right self locals s1 = (Inr Undefined, s2)
      \<longrightarrow> evalExp (binaryFn left (opPlus h) right) self locals s = (Inr x, s2)
        \<and> evalExp (binaryFn left (opMinus h) right) self locals s
            = jsBinop h ''-'' (if isDefined x then x else Num 0) (Num 0) s2"
    by (simp add: binaryFn_run opPlus_def opMinus_def asArg_def callArg_def bnd_def ret_def
          isDefined_def)
  have negate: "isSafeInteger y \<longrightarrow> jsBinop h ''-'' (Num 0) (Num y) s2 = (Inr (Num (- y)), s2)
        \<and> jsBinop h ''-'' (Num y) (Num 0) s2 = (Inr (Num y), s2)"
    by (simp add: jsBinop_def compareNum_def exactArith_def isSafeInteger_zero isSafeInteger_minus
          ret_def)
  have table: "OPERATORS h ''+'' = Some (opPlus h) \<and> OPERATORS h ''-'' = Some (opMinus h)"
    by (simp add: OPERATORS_def)
  have example: "validCache h c \<and> \<not> isNullish scope \<and> field s scope ''a'' = Undefined
        \<and> field s scope ''b'' = Num 5 \<and> locals \<noteq> Null \<and> ownProps s locals = Map.empty
      \<longrightarrow> (\<exists>e g. compileExpression h (10 + k) (Str ''a+b'') opts None c = Some (Inr e, None, g)
                \<and> evalExp e scope locals s = (Inr (Num 5), s))
        \<and> (\<exists>e g. compileExpression h (10 + k) (Str ''a-b'') opts None c = Some (Inr e, None, g)
                \<and> evalExp e scope locals s = (Inr (Num (- 5)), s))"
  proof (intro impI conjI)
    assume a: "validCache h c \<and> \<not> isNullish scope \<and> field s scope ''a'' = Undefined
        \<and> field s scope ''b'' = Num 5 \<and> locals \<noteq> Null \<and> ownProps s locals = Map.empty"
    show "\<exists>e g. compileExpression h (10 + k) (Str ''a+b'') opts None c = Some (Inr e, None, g)
                \<and> evalExp e scope locals s = (Inr (Num 5), s)"
      using a
      apply (simp add: lex_defs getter_defs parse_defs)
      apply (simp add: run_defs)
      done
    show "\<exists>e g. compileExpression h (10 + k) (Str ''a-b'') opts None c = Some (Inr e, None, g)
                \<and> evalExp e scope locals s = (Inr (Num (- 5)), s)"
      using a
      apply (simp add: lex_defs getter_defs parse_defs)
      apply (simp add: run_defs)
      done
  qed
  have example2: "validCache h c \<and> \<not> isNullish scope \<and> field s scope ''a'' = Num 5
        \<and> field s scope ''b'' = Undefined \<and> locals \<noteq> Null \<and> ownProps s locals = Map.empty
      \<longrightarrow> (\<exists>e g. compileExpression h (10 + k) (Str ''a+b'') opts None c = Some (Inr e, None, g)
                \<and> evalExp e scope locals s = (Inr (Num 5), s))
        \<and> (\<exists>e g. compileExpression h (10 + k) (Str ''a-b'') opts None c = Some (Inr e, None, g)
                \<and> evalExp e scope locals s = (Inr (Num 5), s))"
  proof (intro impI conjI)
    assume a: "validCache h c \<and> \<not> isNullish scope \<and> field s scope ''a'' = Num 5
        \<and> field s scope ''b'' = Undefined \<and> locals \<noteq> Null \<and> ownProps s locals = Map.empty"
    show "\<exists>e g. compileExpression h (10 + k) (Str ''a+b'') opts None c = Some (Inr e, None, g)
                \<and> evalExp e scope locals s = (Inr (Num 5), s)"
      using a
      apply (simp add: lex_defs getter_defs parse_defs)
      apply (simp add: run_defs)
      done
    show "\<exists>e g. compileExpression h (10 + k) (Str ''a-b'') opts None c = Some (Inr e, None, g)
                \<and> evalExp e scope locals s = (Inr (Num 5), s)"
      using a
      apply (simp add: lex_defs getter_defs parse_defs)
      apply (simp add: run_defs)
      done
  qed
  from node left_undefined right_undefined negate table example example2 show ?thesis
    by blast
qed

theorem plus_minus_with_undefined_operand_witness:
  "evalExp (plainFn noop) (Obj 0) (Obj 1)
       \<lparr>heap = [[''a'' \<mapsto> Undefined, ''b'' \<mapsto> Num 5], Map.empty], calls = []\<rparr>
     = (Inr Undefined, \<lparr>heap = [[''a'' \<mapsto> Undefined, ''b'' \<mapsto> Num 5], Map.empty], calls = []\<rparr>)
   \<and> evalExp (binaryFn (plainFn noop) (opPlus plainHost) (plainFn (opConst (Num 5)))) (Obj 0) (Obj 1)
       \<lparr>heap = [[''a'' \<mapsto> Undefined, ''b'' \<mapsto> Num 5], Map.empty], calls = []\<rparr>
     = (Inr (Num 5), \<lparr>heap = [[''a'' \<mapsto> Undefined, ''b'' \<mapsto> Num 5], Map.empty], calls = []\<rparr>)
   \<and> evalExp (binaryFn (plainFn (opConst (Num 5))) (opPlus plainHost) (plainFn noop)) (Obj 0) (Obj 1)
       \<lparr>heap = [[''a'' \<mapsto> Undefined, ''b'' \<mapsto> Num 5], Map.empty], calls = []\<rparr>
     = (Inr (Num 5), \<lparr>heap = [[''a'' \<mapsto> Undefined, ''b'' \<mapsto> Num 5], Map.empty], calls = []\<rparr>)
   \<and> evalExp (binaryFn (plainFn noop) (opMinus plainHost) (plainFn (opConst (Num 5)))) (Obj 0) (Obj 1)
       \<lparr>heap = [[''a'' \<mapsto> Undefined, ''b'' \<mapsto> Num 5], Map.empty], calls = []\<rparr>
     = (Inr (Num (- 5)), \<lparr>heap = [[''a'' \<mapsto> Undefined, ''b'' \<mapsto> Num 5], Map.empty], calls = []\<rparr>)
   \<and> evalExp (binaryFn (plainFn (opConst (Num 5))) (opMinus plainHost) (plainFn noop)) (Obj 0) (Obj 1)
       \<lparr>heap = [[''a'' \<mapsto> Undefined, ''b'' \<mapsto> Num 5], Map.empty], calls = []\<rparr>
     = (Inr (Num 5), \<lparr>heap = [[''a'' \<mapsto> Undefined, ''b'' \<mapsto> Num 5], Map.empty], calls = []\<rparr>)
   \<and> isSafeInteger 5 \<and> validCache plainHost Map.empty
   \<and> (\<exists>e g. compileExpression plainHost 10 (Str ''a+b'') None None Map.empty = Some (Inr e, None, g)
         \<and> evalExp e (Obj 0) (Obj 1)
              \<lparr>heap = [[''a'' \<mapsto> Undefined, ''b'' \<mapsto> Num 5], Map.empty], calls = []\<rparr>
            = (Inr (Num 5),
               \<lparr>heap = [[''a'' \<mapsto> Undefined, ''b'' \<mapsto> Num 5], Map.empty], calls = []\<rparr>))
   \<and> (\<exists>e g. compileExpression plainHost 10 (Str ''a-b'') None None Map.empty = Some (Inr e, None, g)
         \<and> evalExp e (Obj 0) (Obj 1)
              \<lparr>heap = [[''a'' \<mapsto> Undefined, ''b'' \<mapsto> Num 5], Map.empty], calls = []\<rparr>
            = (Inr (Num (- 5)),
               \<lparr>heap = [[''a'' \<mapsto> Undefined, ''b'' \<mapsto> Num 5], Map.empty], calls = []\<rparr>))"
proof -
  let ?s = "\<lparr>heap = [[''a'' \<mapsto> Undefined, ''b'' \<mapsto> Num 5], Map.empty], calls = []\<rparr>"
  have undef: "evalExp (plainFn noop) (Obj 0) (Obj 1) ?s = (Inr Undefined, ?s)"
    by (simp add: evalExp_def plainFn_def noop_def ret_def)
  have five: "evalExp (plainFn (opConst (Num 5))) (Obj 0) (Obj 1) ?s = (Inr (Num 5), ?s)"
    by (simp add: evalExp_def plainFn_def opConst_def ret_def)
  have safe: "isSafeInteger 5"
    by (simp add: isSafeInteger_def)
  have scope: "\<not> isNullish (Obj 0) \<and> field ?s (Obj 0) ''a'' = Undefined
      \<and> field ?s (Obj 0) ''b'' = Num 5 \<and> Obj 1 \<noteq> Null \<and> ownProps ?s (Obj 1) = Map.empty"
    by (simp add: isNullish_def field_def ownProps_def objectAt_def)
  note left = plus_minus_with_undefined_operand [where left = "plainFn noop"
      and right = "plainFn (opConst (Num 5))" and self = "Obj 0" and locals = "Obj 1" and s = ?s
      and ?s1.0 = ?s and ?s2.0 = ?s and x = "Num 5" and y = 5 and h = plainHost and c = Map.empty
      and scope = "Obj 0" and k = 0 and opts = None and a = Undefined and b = "Num 5"]
  note right = plus_minus_with_undefined_operand [where left = "plainFn (opConst (Num 5))"
      and right = "plainFn noop" and self = "Obj 0" and locals = "Obj 1" and s = ?s
      and ?s1.0 = ?s and ?s2.0 = ?s and x = "Num 5" and y = 5 and h = plainHost and c = Map.empty
      and scope = "Obj 0" and k = 0 and opts = None and a = "Num 5" and b = Undefined]
  show ?thesis
    using left right undef five safe scope validCache_empty [of plainHost]
    by (simp add: isDefined_def)
qed

text \<open>
  C7. The node that the parser builds for \<^verbatim>\<open>left == right\<close> evaluates both operands, the
  left one first, and gives the strict equality of the two values; \<^verbatim>\<open>!=\<close> gives its
  negation. The operator table holds the same function under \<^verbatim>\<open>==\<close> and \<^verbatim>\<open>===\<close>, and under
  \<^verbatim>\<open>!=\<close> and \<^verbatim>\<open>!==\<close>. The number 1 and the string \<^verbatim>\<open>1\<close> are not strictly equal: for every
  scope, locals, state and getter cache, \<^verbatim>\<open>1 == '1'\<close> and \<^verbatim>\<open>1 === '1'\<close> compile and evaluate
  to false, \<^verbatim>\<open>1 != '1'\<close> to true.
\<close>

theorem equality_operators_are_strict:
  "(evalExp left self locals s = (Inr a, s1) \<and> evalExp right self locals s1 = (Inr b, s2)
      \<longrightarrow> evalExp (binaryFn left (opStrictEq h) right) self locals s = (Inr (Bool (strictEq a b)), s2)
        \<and> evalExp (binaryFn left (opStrictNe h) right) self locals s
            = (Inr (Bool (\<not> strictEq a b)), s2))
   \<and> OPERATORS h ''=='' = Some (opStrictEq h) \<and> OPERATORS h ''==='' = Some (opStrictEq h)
   \<and> OPERATORS h ''!='' = Some (opStrictNe h) \<and> OPERATORS h ''!=='' = Some (opStrictNe h)
   \<and> \<not> strictEq (Num 1) (Str ''1'')
   \<and> (\<exists>e. compileExpression h (10 + k) (Str (''1 == '' @ [CHR 0x27, CHR ''1'', CHR 0x27])) opts None c
              = Some (Inr e, None, c)
          \<and> evalExp e scope locals s = (Inr (Bool False), s))
   \<and> (\<exists>e. compileExpression h (10 + k) (Str (''1 === '' @ [CHR 0x27, CHR ''1'', CHR 0x27])) opts None c
              = Some (Inr e, None, c)
          \<and> evalExp e scope locals s = (Inr (Bool False), s))
   \<and> (\<exists>e. compileExpression h (10 + k) (Str (''1 != '' @ [CHR 0x27, CHR ''1'', CHR 0x27])) opts None c
              = Some (Inr e, None, c)
          \<and> evalExp e scope locals s = (Inr (Bool True), s))"
proof -
  have node:
    "evalExp left self locals s = (Inr a, s1) \<and> evalExp right self locals s1 = (Inr b, s2)
      \<longrightarrow> evalExp (binaryFn left (opStrictEq h) right) self locals s = (Inr (Bool (strictEq a b)), s2)
        \<and> evalExp (binaryFn left (opStrictNe h) right) self locals s
            = (Inr (Bool (\<not> strictEq a b)), s2)"
    by (simp add: binaryFn_run opStrictEq_def opStrictNe_def asArg_def callArg_def bnd_def ret_def)
  have table:
    "OPERATORS h ''=='' = Some (opStrictEq h) \<and> OPERATORS h ''==='' = Some (opStrictEq h)
     \<and> OPERATORS h ''!='' = Some (opStrictNe h) \<and> OPERATORS h ''!=='' = Some (opStrictNe h)"
    by (simp add: OPERATORS_def)
  have distinct: "\<not> strictEq (Num 1) (Str ''1'')"
    by (simp add: strictEq_def)
  have eq2:
    "\<exists>e. compileExpression h (10 + k) (Str (''1 == '' @ [CHR 0x27, CHR ''1'', CHR 0x27])) opts None c
              = Some (Inr e, None, c)
          \<and> evalExp e scope locals s = (Inr (Bool False), s)"
    apply (simp add: lex_defs parse_defs)
    apply (simp add: run_defs opConst_def)
    done
  have eq3:
    "\<exists>e. compileExpression h (10 + k) (Str (''1 === '' @ [CHR 0x27, CHR ''1'', CHR 0x27])) opts None c
              = Some (Inr e, None, c)
          \<and> evalExp e scope locals s = (Inr (Bool False), s)"
    apply (simp add: lex_defs parse_defs)
    apply (simp add: run_defs opConst_def)
    done
  have ne2:
    "\<exists>e. compileExpression h (10 + k) (Str (''1 != '' @ [CHR 0x27, CHR ''1'', CHR 0x27])) opts None c
              = Some (Inr e, None, c)
          \<and> evalExp e scope locals s = (Inr (Bool True), s)"
    apply (simp add: lex_defs parse_defs)
    apply (simp add: run_defs opConst_def)
    done
  from node table distinct eq2 eq3 ne2 show ?thesis
    by blast
qed

theorem equality_operators_are_strict_witness:
  "evalExp (plainFn (opConst (Num 1))) Undefined Undefined \<lparr>heap = [], calls = []\<rparr>
     = (Inr (Num 1), \<lparr>heap = [], calls = []\<rparr>)
   \<and> evalExp (plainFn (opConst (Str ''1''))) Undefined Undefined \<lparr>heap = [], calls = []\<rparr>
     = (Inr (Str ''1''), \<lparr>heap = [], calls = []\<rparr>)
   \<and> evalExp (binaryFn (plainFn (opConst (Num 1))) (opStrictEq plainHost)
         (plainFn (opConst (Str ''1'')))) Undefined Undefined \<lparr>heap = [], calls = []\<rparr>
     = (Inr (Bool False), \<lparr>heap = [], calls = []\<rparr>)
   \<and> evalExp (binaryFn (plainFn (opConst (Num 1))) (opStrictNe plainHost)
         (plainFn (opConst (Str ''1'')))) Undefined Undefined \<lparr>heap = [], calls = []\<rparr>
     = (Inr (Bool True), \<lparr>heap = [], calls = []\<rparr>)"
proof -
  let ?s = "\<lparr>heap = [], calls = []\<rparr>"
  have one: "evalExp (plainFn (opConst (Num 1))) Undefined Undefined ?s = (Inr (Num 1), ?s)"
    by (simp add: evalExp_def plainFn_def opConst_def ret_def)
  have text_one:
    "evalExp (plainFn (opConst (Str ''1''))) Undefined Undefined ?s = (Inr (Str ''1''), ?s)"
    by (simp add: evalExp_def plainFn_def opConst_def ret_def)
  show ?thesis
    using equality_operators_are_strict [where left = "plainFn (opConst (Num 1))"
        and right = "plainFn (opConst (Str ''1''))" and self = Undefined and locals = Undefined
        and s = ?s and ?s1.0 = ?s and ?s2.0 = ?s and a = "Num 1" and b = "Str ''1''"
        and h = plainHost]
      one text_one
    by (simp add: strictEq_def)
qed

subsection \<open>Assignment with runtime hooks\<close>



subsection \<open>The sandbox guard\<close>

lemma ensureSafeMemberName_constructor:
  "ensureSafeMemberName (Some ''constructor'') fullExp = Inl (reservedNameError fullExp)"
  by (simp add: ensureSafeMemberName_def parseMinErr_def reservedNameError_def isDigit_def
        digitValue_def)

lemma ensureSafeMemberName_other:
  "name \<noteq> Some ''constructor'' \<Longrightarrow> ensureSafeMemberName name fullExp = Inr name"
  by (simp add: ensureSafeMemberName_def)

lemma ensureSafeObject_function:
  "truthy v \<Longrightarrow> strictEq (field s v ''constructor'') v
     \<Longrightarrow> ensureSafeObject v fullExp s = (Inl (functionObjectError fullExp), s)"
  by (simp add: ensureSafeObject_def parseMinErr_def functionObjectError_def isDigit_def
        digitValue_def)

lemma sandbox_errors_differ: "reservedNameError e \<noteq> functionObjectError e'"
  by (simp add: reservedNameError_def functionObjectError_def)

text \<open>A path with a reserved key, of fewer than six keys, has no entry in a valid cache.\<close>

lemma getterFn_valid_error:
  assumes "validCache h c" "length (splitDots path) < 6" "compiledGetter h path [] = Inl err"
  shows "getterFn h path e c = (compiledGetter h path e, c)"
proof -
  have none: "c path = None"
  proof (cases "c path")
    case (Some fn)
    with assms(1) obtain e0 where "compiledGetter h path e0 = Inr fn"
      by (auto simp add: validCache_def)
    then have "compiledGetter h path [] = Inr fn"
      using assms(2) compiledGetter_short by blast
    then show ?thesis
      using assms(3) by simp
  qed simp
  have "\<exists>err'. compiledGetter h path e = Inl err'"
  proof (cases "compiledGetter h path e")
    case (Inr fn)
    then have "compiledGetter h path [] = Inr fn"
      using assms(2) compiledGetter_short by blast
    then show ?thesis
      using assms(3) by simp
  qed simp
  then show ?thesis
    using none by (auto simp add: getterFn_eq)
qed

text \<open>
  What holds of the two layers of the guard. \<^verbatim>\<open>x.constructor\<close> does not compile: the lexer
  raises the error of the reserved name, whatever the getter cache holds. \<^verbatim>\<open>x()\<close> compiles,
  and its evaluation raises the error of the function object when \<^verbatim>\<open>x\<close> of the scope is
  a truthy value whose \<^verbatim>\<open>constructor\<close> is the value itself (function calls not being
  disallowed by the options, the scope being safe, the locals without properties). Both errors are \<^verbatim>\<open>SyntaxError\<close> objects; they differ in their
  message.
\<close>

lemma sandbox_static_and_dynamic:
  assumes "validCache h c"
  shows "compileExpression h (10 + k) (Str ''x.constructor'') opts None c
           = Some (Inl (reservedNameError ''x.constructor''), None, c)"
    and "\<forall>os. opts = Some os \<longrightarrow> \<not> disallowFunctionCalls os
         \<Longrightarrow> \<not> isNullish scope \<Longrightarrow> ensureSafeObject scope ''x()'' s = (Inr scope, s)
         \<Longrightarrow> locals \<noteq> Null \<Longrightarrow> ownProps s locals = Map.empty
         \<Longrightarrow> field s scope ''x'' = f \<Longrightarrow> truthy f \<Longrightarrow> strictEq (field s f ''constructor'') f
         \<Longrightarrow> \<exists>e g. compileExpression h (10 + k) (Str ''x()'') opts None c = Some (Inr e, None, g)
               \<and> evalExp e scope locals s = (Inl (functionObjectError ''x()''), s)"
proof -
  show "compileExpression h (10 + k) (Str ''x.constructor'') opts None c
           = Some (Inl (reservedNameError ''x.constructor''), None, c)"
    using assms
    by (simp add: lex_defs getterFn_valid_error compiledGetter_eq parse_defs
          parseMinErr_def reservedNameError_def)
next
  assume opts: "\<forall>os. opts = Some os \<longrightarrow> \<not> disallowFunctionCalls os"
  assume a: "\<not> isNullish scope" "ensureSafeObject scope ''x()'' s = (Inr scope, s)"
    "locals \<noteq> Null" "ownProps s locals = Map.empty"
    "field s scope ''x'' = f" "truthy f" "strictEq (field s f ''constructor'') f"
  have f: "ensureSafeObject f ''x()'' s = (Inl (functionObjectError ''x()''), s)"
    using a(6,7) by (rule ensureSafeObject_function)
  show "\<exists>e g. compileExpression h (10 + k) (Str ''x()'') opts None c = Some (Inr e, None, g)
               \<and> evalExp e scope locals s = (Inl (functionObjectError ''x()''), s)"
    using assms a(1-6) f opts
    apply (simp add: lex_defs getter_defs parse_defs)
    apply (simp add: evalExp_def callFn_def evalAll.simps bnd_def ret_def asArg_def callArg_def
             simpleGetter1_def localsOrScope_def getRuntimeHooks_def hookOf_def getProp_def
             hasOwnProperty_def keyName_def isNullish_def field_def hookField_def)
    apply (cases opts)
     apply simp_all
    done
qed

subsection \<open>Paths of six or more keys\<close>

text \<open>The equations that run the getter of a path of six or more keys.\<close>

lemmas long_defs = longGetter_def snapshot_def getterLoop.simps newObject_def cspSafeGetter_def
  cspSteps.simps ownProps_def objectAt_def cspSafeGetterFn_def keyAt_def bndE_def

text \<open>
  C2. A path of six keys is not checked when it is compiled: \<^verbatim>\<open>a.b.c.d.e.constructor\<close>
  compiles. Its getter checks the keys of a chunk when it reaches the chunk: on a scope that
  holds objects along \<^verbatim>\<open>a.b.c.d.e\<close>, with locals without properties, the evaluation reads the
  first five keys, creates the copy of the locals and then raises the error of the reserved
  name.
\<close>

theorem long_path_checks_reserved_name_when_evaluated:
  "\<exists>e g. compileExpression h (10 + k) (Str ''a.b.c.d.e.constructor'') opts None Map.empty
            = Some (Inr e, None, g)
      \<and> evalExp e (Obj 0) (Obj 6)
           \<lparr>heap = [[''a'' \<mapsto> Obj 1], [''b'' \<mapsto> Obj 2], [''c'' \<mapsto> Obj 3], [''d'' \<mapsto> Obj 4],
                    [''e'' \<mapsto> Obj 5], Map.empty, Map.empty], calls = []\<rparr>
         = (Inl (reservedNameError ''a.b.c.d.e.constructor''),
            \<lparr>heap = [[''a'' \<mapsto> Obj 1], [''b'' \<mapsto> Obj 2], [''c'' \<mapsto> Obj 3], [''d'' \<mapsto> Obj 4],
                     [''e'' \<mapsto> Obj 5], Map.empty, Map.empty, Map.empty], calls = []\<rparr>)"
  apply (simp add: lex_defs getterFn_eq compiledGetter_eq parse_defs)
  apply (simp add: run_defs long_defs ensureSafeMemberName_constructor ensureSafeMemberName_other)
  done

theorem long_path_checks_reserved_name_when_evaluated_witness:
  "\<exists>e g. compileExpression plainHost 10 (Str ''a.b.c.d.e.constructor'') None None Map.empty
            = Some (Inr e, None, g)
      \<and> fst (evalExp e (Obj 0) (Obj 6)
           \<lparr>heap = [[''a'' \<mapsto> Obj 1], [''b'' \<mapsto> Obj 2], [''c'' \<mapsto> Obj 3], [''d'' \<mapsto> Obj 4],
                    [''e'' \<mapsto> Obj 5], Map.empty, Map.empty], calls = []\<rparr>)
         = Inl (reservedNameError ''a.b.c.d.e.constructor'')"
  using long_path_checks_reserved_name_when_evaluated [of plainHost 0 None]
  by auto

text \<open>
  C1. The getter of a path of six keys looks the sixth key up in the locals. The scope
  holds 1 under \<^verbatim>\<open>a.b.c.d.e.f\<close> and 7 under \<^verbatim>\<open>a.b.c.d.f\<close>, the locals hold 2 under \<^verbatim>\<open>f\<close>.
  \<^verbatim>\<open>a.b.c.d.e.f\<close> evaluates to 2, the value of the locals, and leaves the two copies of the
  locals on the heap. The path of five keys \<^verbatim>\<open>a.b.c.d.f\<close> evaluates to 7, the value of the
  scope.
\<close>

theorem long_path_reads_sixth_key_from_locals:
  "(\<exists>e g. compileExpression h (10 + k) (Str ''a.b.c.d.e.f'') opts None Map.empty
            = Some (Inr e, None, g)
      \<and> evalExp e (Obj 0) (Obj 6)
           \<lparr>heap = [[''a'' \<mapsto> Obj 1], [''b'' \<mapsto> Obj 2], [''c'' \<mapsto> Obj 3], [''d'' \<mapsto> Obj 4],
                    [''e'' \<mapsto> Obj 5, ''f'' \<mapsto> Num 7], [''f'' \<mapsto> Num 1], [''f'' \<mapsto> Num 2]],
            calls = []\<rparr>
         = (Inr (Num 2),
            \<lparr>heap = [[''a'' \<mapsto> Obj 1], [''b'' \<mapsto> Obj 2], [''c'' \<mapsto> Obj 3], [''d'' \<mapsto> Obj 4],
                     [''e'' \<mapsto> Obj 5, ''f'' \<mapsto> Num 7], [''f'' \<mapsto> Num 1], [''f'' \<mapsto> Num 2],
                     [''f'' \<mapsto> Num 2], [''f'' \<mapsto> Num 2]],
             calls = []\<rparr>))
   \<and> (\<exists>e g. compileExpression h (10 + k) (Str ''a.b.c.d.f'') opts None Map.empty
            = Some (Inr e, None, g)
      \<and> evalExp e (Obj 0) (Obj 6)
           \<lparr>heap = [[''a'' \<mapsto> Obj 1], [''b'' \<mapsto> Obj 2], [''c'' \<mapsto> Obj 3], [''d'' \<mapsto> Obj 4],
                    [''e'' \<mapsto> Obj 5, ''f'' \<mapsto> Num 7], [''f'' \<mapsto> Num 1], [''f'' \<mapsto> Num 2]],
            calls = []\<rparr>
         = (Inr (Num 7),
            \<lparr>heap = [[''a'' \<mapsto> Obj 1], [''b'' \<mapsto> Obj 2], [''c'' \<mapsto> Obj 3], [''d'' \<mapsto> Obj 4],
                     [''e'' \<mapsto> Obj 5, ''f'' \<mapsto> Num 7], [''f'' \<mapsto> Num 1], [''f'' \<mapsto> Num 2]],
             calls = []\<rparr>))"
proof (intro conjI)
  show "\<exists>e g. compileExpression h (10 + k) (Str ''a.b.c.d.e.f'') opts None Map.empty
            = Some (Inr e, None, g)
      \<and> evalExp e (Obj 0) (Obj 6)
           \<lparr>heap = [[''a'' \<mapsto> Obj 1], [''b'' \<mapsto> Obj 2], [''c'' \<mapsto> Obj 3], [''d'' \<mapsto> Obj 4],
                    [''e'' \<mapsto> Obj 5, ''f'' \<mapsto> Num 7], [''f'' \<mapsto> Num 1], [''f'' \<mapsto> Num 2]],
            calls = []\<rparr>
         = (Inr (Num 2),
            \<lparr>heap = [[''a'' \<mapsto> Obj 1], [''b'' \<mapsto> Obj 2], [''c'' \<mapsto> Obj 3], [''d'' \<mapsto> Obj 4],
                     [''e'' \<mapsto> Obj 5, ''f'' \<mapsto> Num 7], [''f'' \<mapsto> Num 1], [''f'' \<mapsto> Num 2],
                     [''f'' \<mapsto> Num 2], [''f'' \<mapsto> Num 2]],
             calls = []\<rparr>)"
    apply (simp add: lex_defs getterFn_eq compiledGetter_eq parse_defs)
    apply (simp add: run_defs long_defs ensureSafeMemberName_other)
    done
  show "\<exists>e g. compileExpression h (10 + k) (Str ''a.b.c.d.f'') opts None Map.empty
            = Some (Inr e, None, g)
      \<and> evalExp e (Obj 0) (Obj 6)
           \<lparr>heap = [[''a'' \<mapsto> Obj 1], [''b'' \<mapsto> Obj 2], [''c'' \<mapsto> Obj 3], [''d'' \<mapsto> Obj 4],
                    [''e'' \<mapsto> Obj 5, ''f'' \<mapsto> Num 7], [''f'' \<mapsto> Num 1], [''f'' \<mapsto> Num 2]],
            calls = []\<rparr>
         = (Inr (Num 7),
            \<lparr>heap = [[''a'' \<mapsto> Obj 1], [''b'' \<mapsto> Obj 2], [''c'' \<mapsto> Obj 3], [''d'' \<mapsto> Obj 4],
                     [''e'' \<mapsto> Obj 5, ''f'' \<mapsto> Num 7], [''f'' \<mapsto> Num 1], [''f'' \<mapsto> Num 2]],
             calls = []\<rparr>)"
    apply (simp add: lex_defs getterFn_eq compiledGetter_eq parse_defs)
    apply (simp add: run_defs long_defs ensureSafeMemberName_other)
    done
qed

theorem long_path_reads_sixth_key_from_locals_witness:
  "\<exists>e g. compileExpression plainHost 10 (Str ''a.b.c.d.e.f'') None None Map.empty
            = Some (Inr e, None, g)
      \<and> fst (evalExp e (Obj 0) (Obj 6)
           \<lparr>heap = [[''a'' \<mapsto> Obj 1], [''b'' \<mapsto> Obj 2], [''c'' \<mapsto> Obj 3], [''d'' \<mapsto> Obj 4],
                    [''e'' \<mapsto> Obj 5, ''f'' \<mapsto> Num 7], [''f'' \<mapsto> Num 1], [''f'' \<mapsto> Num 2]],
            calls = []\<rparr>)
         = Inr (Num 2)"
  using long_path_reads_sixth_key_from_locals [of plainHost 0 None]
  by auto

text \<open>
  What holds of the reading of \<^verbatim>\<open>a.b.c\<close>, for every valid getter cache, a scope that is not
  \<^verbatim>\<open>undefined\<close> or \<^verbatim>\<open>null\<close> and locals without properties: with objects along the path the
  value under \<^verbatim>\<open>c\<close> is returned; where \<^verbatim>\<open>a\<close> or \<^verbatim>\<open>b\<close> holds \<^verbatim>\<open>undefined\<close> or \<^verbatim>\<open>null\<close>, the
  result is \<^verbatim>\<open>undefined\<close>. Nothing is raised and the state stays as it is.
\<close>

lemma path_a_b_c_reads:
  assumes "validCache h c" "\<not> isNullish scope" "locals \<noteq> Null" "ownProps s locals = Map.empty"
  shows "\<exists>e g. compileExpression h (10 + k) (Str ''a.b.c'') opts None c = Some (Inr e, None, g)
           \<and> evalExp e scope locals s
               = (Inr (if isNullish (field s scope ''a'') then Undefined
                       else if isNullish (field s (field s scope ''a'') ''b'') then Undefined
                       else field s (field s (field s scope ''a'') ''b'') ''c''), s)"
  using assms
  apply (simp add: lex_defs getter_defs parse_defs)
  apply (simp add: run_defs cspSteps.simps)
  done

text \<open>
  C6. The getter of a path of six keys copies the own properties of the locals before it
  reads anything. Evaluated without locals, \<^verbatim>\<open>a.b.c.d.e.f\<close> raises the \<^verbatim>\<open>TypeError\<close> of
  \<^verbatim>\<open>Object.keys\<close>, on a scope that holds an empty object under \<^verbatim>\<open>a\<close>. With locals that hold 2
  under \<^verbatim>\<open>f\<close>, on the same scope, it evaluates to 2. With locals without properties, on a
  scope that holds \<^verbatim>\<open>null\<close> under \<^verbatim>\<open>a.b.c.d.e\<close>, it evaluates to \<^verbatim>\<open>null\<close>.
\<close>

theorem long_path_with_missing_value:
  "\<exists>e g. compileExpression h (10 + k) (Str ''a.b.c.d.e.f'') opts None Map.empty
            = Some (Inr e, None, g)
      \<and> evalExp e (Obj 0) Undefined \<lparr>heap = [[''a'' \<mapsto> Obj 1], Map.empty], calls = []\<rparr>
         = (Inl (TypeError ''Cannot convert undefined or null to object''),
            \<lparr>heap = [[''a'' \<mapsto> Obj 1], Map.empty], calls = []\<rparr>)
      \<and> evalExp e (Obj 0) (Obj 2)
           \<lparr>heap = [[''a'' \<mapsto> Obj 1], Map.empty, [''f'' \<mapsto> Num 2]], calls = []\<rparr>
         = (Inr (Num 2),
            \<lparr>heap = [[''a'' \<mapsto> Obj 1], Map.empty, [''f'' \<mapsto> Num 2], [''f'' \<mapsto> Num 2],
                     [''f'' \<mapsto> Num 2]], calls = []\<rparr>)
      \<and> evalExp e (Obj 0) (Obj 5)
           \<lparr>heap = [[''a'' \<mapsto> Obj 1], [''b'' \<mapsto> Obj 2], [''c'' \<mapsto> Obj 3], [''d'' \<mapsto> Obj 4],
                    [''e'' \<mapsto> Null], Map.empty], calls = []\<rparr>
         = (Inr Null,
            \<lparr>heap = [[''a'' \<mapsto> Obj 1], [''b'' \<mapsto> Obj 2], [''c'' \<mapsto> Obj 3], [''d'' \<mapsto> Obj 4],
                     [''e'' \<mapsto> Null], Map.empty, Map.empty, Map.empty], calls = []\<rparr>)"
  apply (simp add: lex_defs getterFn_eq compiledGetter_eq parse_defs)
  apply (simp add: run_defs long_defs ensureSafeMemberName_other)
  done

theorem long_path_with_missing_value_witness:
  "\<exists>e g. compileExpression plainHost 10 (Str ''a.b.c.d.e.f'') None None Map.empty
            = Some (Inr e, None, g)
      \<and> fst (evalExp e (Obj 0) Undefined \<lparr>heap = [[''a'' \<mapsto> Obj 1], Map.empty], calls = []\<rparr>)
         = Inl (TypeError ''Cannot convert undefined or null to object'')"
  using long_path_with_missing_value [of plainHost 0 None]
  by auto

subsection \<open>The slash in the tokenizer and in the lexer\<close>

lemma OPERATORS_slash: "OPERATORS h ''/'' = Some (opBinary h ''/'')"
  by (simp add: OPERATORS_def)

lemma OPERATORS_slash_more: "x \<noteq> [] \<Longrightarrow> OPERATORS h (CHR ''/'' # x) = None"
  by (simp add: OPERATORS_def)

lemma peekText_not_empty: "peekText p \<noteq> []"
  by (cases p) (simp_all add: peekText_def)

text \<open>
  The lexer has no scan for a regular expression: at a slash, whatever precedes it, it adds
  the token of the operator \<^verbatim>\<open>/\<close> and moves on by one character.
\<close>

lemma lexStep_slash:
  assumes "text ! lex_index lx = CHR ''/''"
  shows "lexStep h text lx cache =
    (Inr (lx\<lparr>lex_index := lex_index lx + 1,
             lex_tokens := lex_tokens lx
               @ [(plainToken (lex_index lx) ''/'' False)\<lparr>tok_fn := Some (plainFn (opBinary h ''/''))\<rparr>],
             lex_lastCh := CHR ''/''\<rparr>), cache)"
  using assms
  by (simp add: lexStep_def Let_def isNumber_def isIdent_def isWhitespace_def OPERATORS_slash
        OPERATORS_slash_more peekText_not_empty)

text \<open>
  The claim C4 as it is worded fails: after the keyword \<^verbatim>\<open>typeof\<close> the rule of the
  specification makes the slash a division, the tokenizer keeps the token of the regular
  expression; and the lexer returns the two slashes after \<^verbatim>\<open>in\<close> as operator tokens.
\<close>

theorem slash_after_typeof_and_in_lexer:
  "specSlashIsDivision ''typeof'' \<and> \<not> slashIsDivision ''typeof''
   \<and> parseObjectLiteral ''a: typeof / x /'' = Some (Inr [KeyValue ''a'' ''typeof/ x /''])
   \<and> lexTexts plainHost ''in /x/ 2'' = Inr [Str ''in'', Str ''/'', Str ''x'', Str ''/'', Num 2]"
proof -
  have "specSlashIsDivision ''typeof'' \<and> \<not> slashIsDivision ''typeof''"
    by (simp add: specSlashIsDivision_def slashIsDivision_def divisionLookBehind_def
          isLookBehindChar_def keywordRegexLookBehind_def objectPrototypeKeys_def)
  moreover have
    "parseObjectLiteral ''a: typeof / x /'' = Some (Inr [KeyValue ''a'' ''typeof/ x /''])"
    by code_simp
  moreover have
    "lexTexts plainHost ''in /x/ 2'' = Inr [Str ''in'', Str ''/'', Str ''x'', Str ''/'', Num 2]"
    by (simp add: lexTexts_def lex_defs getterFn_eq compiledGetter_eq)
  ultimately show ?thesis
    by simp
qed

text \<open>
  C4, amended. In the tokenizer the test on the previous token holds exactly when the end
  of that token matches the look-behind pattern and the match is none of the keywords
  \<^verbatim>\<open>in\<close>, \<^verbatim>\<open>return\<close> and \<^verbatim>\<open>typeof\<close>, for a match that is not a member that the table of
  the keywords inherits (after such a match the test fails as well). Take a token of more
  than one character that starts with a slash and is not the first token. When the test
  holds and the token stands in the text where it first occurs, the text from just past
  its slash is split anew, the loop restarts on these tokens and the value takes the slash
  alone; when the test fails, the value takes the token as it was matched. So \<^verbatim>\<open>b / x /\<close>
  gives the value \<^verbatim>\<open>b/x/\<close>, and after \<^verbatim>\<open>in\<close>, \<^verbatim>\<open>return\<close> and \<^verbatim>\<open>typeof\<close> the token \<^verbatim>\<open>/ x /\<close>
  stays. The lexer lexes every slash as the operator \<^verbatim>\<open>/\<close>.
\<close>

theorem tokenizer_slash_is_division_or_regex:
  "(slashIsDivision prev \<longleftrightarrow>
      (\<exists>m. divisionLookBehind prev = Some m \<and> m \<noteq> ''in'' \<and> m \<noteq> ''return'' \<and> m \<noteq> ''typeof''
           \<and> m \<notin> set objectPrototypeKeys))
   \<and> (hd tok = CHR ''/'' \<and> 1 < length tok \<and> l_prev v = Some prev \<and> slashIsDivision prev
        \<and> l_str v = pre @ tok @ post \<and> indexOf (l_str v) tok = Some (length pre)
        \<and> strMatch (tl tok @ post) = Some toks
      \<longrightarrow> tokenStep v tok rest
            = Inr (v\<lparr>l_str := tl tok @ post, l_prev := None, l_toks := toks @ ['',''],
                     l_values := pushValue (l_values v) ''/''\<rparr>))
   \<and> (hd tok = CHR ''/'' \<and> 1 < length tok \<and> l_prev v = Some prev \<and> \<not> slashIsDivision prev
      \<longrightarrow> tokenStep v tok rest
            = Inr (v\<lparr>l_prev := Some tok, l_toks := rest, l_values := pushValue (l_values v) tok\<rparr>))
   \<and> parseObjectLiteral ''a: b / x /'' = Some (Inr [KeyValue ''a'' ''b/x/''])
   \<and> parseObjectLiteral ''a: in / x /'' = Some (Inr [KeyValue ''a'' ''in/ x /''])
   \<and> parseObjectLiteral ''a: return / x /'' = Some (Inr [KeyValue ''a'' ''return/ x /''])
   \<and> parseObjectLiteral ''a: typeof / x /'' = Some (Inr [KeyValue ''a'' ''typeof/ x /''])
   \<and> (tx ! lex_index lx = CHR ''/'' \<longrightarrow>
        lexStep h tx lx cache =
          (Inr (lx\<lparr>lex_index := lex_index lx + 1,
                   lex_tokens := lex_tokens lx
                     @ [(plainToken (lex_index lx) ''/'' False)
                          \<lparr>tok_fn := Some (plainFn (opBinary h ''/''))\<rparr>],
                   lex_lastCh := CHR ''/''\<rparr>), cache))"
proof -
  have test: "slashIsDivision prev \<longleftrightarrow>
      (\<exists>m. divisionLookBehind prev = Some m \<and> m \<noteq> ''in'' \<and> m \<noteq> ''return'' \<and> m \<noteq> ''typeof''
           \<and> m \<notin> set objectPrototypeKeys)"
    by (cases "divisionLookBehind prev")
       (auto simp add: slashIsDivision_def keywordRegexLookBehind_def objectPrototypeKeys_def)
  have division:
    "hd tok = CHR ''/'' \<and> 1 < length tok \<and> l_prev v = Some prev \<and> slashIsDivision prev
        \<and> l_str v = pre @ tok @ post \<and> indexOf (l_str v) tok = Some (length pre)
        \<and> strMatch (tl tok @ post) = Some toks
      \<longrightarrow> tokenStep v tok rest
            = Inr (v\<lparr>l_str := tl tok @ post, l_prev := None, l_toks := toks @ ['',''],
                     l_values := pushValue (l_values v) ''/''\<rparr>)"
  proof (intro impI)
    assume a: "hd tok = CHR ''/'' \<and> 1 < length tok \<and> l_prev v = Some prev \<and> slashIsDivision prev
        \<and> l_str v = pre @ tok @ post \<and> indexOf (l_str v) tok = Some (length pre)
        \<and> strMatch (tl tok @ post) = Some toks"
    then have "tok \<noteq> []"
      by auto
    then have past: "drop (length pre + 1) (pre @ tok @ post) = tl tok @ post"
      by (cases tok) simp_all
    from a have str: "l_str v = pre @ tok @ post"
      and index: "indexOf (l_str v) tok = Some (length pre)"
      by blast+
    have "afterSlash (l_str v) tok = drop (length pre + 1) (l_str v)"
      using index by (simp add: afterSlash_def)
    then have "afterSlash (l_str v) tok = tl tok @ post"
      by (metis past str)
    then show "tokenStep v tok rest
            = Inr (v\<lparr>l_str := tl tok @ post, l_prev := None, l_toks := toks @ ['',''],
                     l_values := pushValue (l_values v) ''/''\<rparr>)"
      using a by (simp add: tokenStep_def Let_def)
  qed
  have regex:
    "hd tok = CHR ''/'' \<and> 1 < length tok \<and> l_prev v = Some prev \<and> \<not> slashIsDivision prev
      \<longrightarrow> tokenStep v tok rest
            = Inr (v\<lparr>l_prev := Some tok, l_toks := rest, l_values := pushValue (l_values v) tok\<rparr>)"
    by (simp add: tokenStep_def Let_def)
  have ex1: "parseObjectLiteral ''a: b / x /'' = Some (Inr [KeyValue ''a'' ''b/x/''])"
    by code_simp
  have ex2: "parseObjectLiteral ''a: in / x /'' = Some (Inr [KeyValue ''a'' ''in/ x /''])"
    by code_simp
  have ex3: "parseObjectLiteral ''a: return / x /'' = Some (Inr [KeyValue ''a'' ''return/ x /''])"
    by code_simp
  have ex4: "parseObjectLiteral ''a: typeof / x /'' = Some (Inr [KeyValue ''a'' ''typeof/ x /''])"
    by code_simp
  have lexer: "tx ! lex_index lx = CHR ''/'' \<longrightarrow>
        lexStep h tx lx cache =
          (Inr (lx\<lparr>lex_index := lex_index lx + 1,
                   lex_tokens := lex_tokens lx
                     @ [(plainToken (lex_index lx) ''/'' False)
                          \<lparr>tok_fn := Some (plainFn (opBinary h ''/''))\<rparr>],
                   lex_lastCh := CHR ''/''\<rparr>), cache)"
    using lexStep_slash by blast
  from test division regex ex1 ex2 ex3 ex4 lexer show ?thesis
    by blast
qed

theorem tokenizer_slash_is_division_or_regex_witness:
  "slashIsDivision ''b'' \<and> \<not> slashIsDivision ''in''
   \<and> indexOf ''a: b / x /'' ''/ x /'' = Some (length ''a: b '')
   \<and> strMatch '' x /'' = Some [''x'', ''/'']
   \<and> tokenStep \<lparr>l_str = ''a: b / x /'', l_prev = Some ''b'', l_toks = [''/ x /'', '',''],
                  l_key = ''a'', l_values = Some [''b''], l_depth = 0, l_result = []\<rparr>
        ''/ x /'' ['','']
       = Inr \<lparr>l_str = '' x /'', l_prev = None, l_toks = [''x'', ''/'', '',''],
               l_key = ''a'', l_values = Some [''b'', ''/''], l_depth = 0, l_result = []\<rparr>
   \<and> tokenStep \<lparr>l_str = ''a: in / x /'', l_prev = Some ''in'', l_toks = [''/ x /'', '',''],
                  l_key = ''a'', l_values = Some [''in''], l_depth = 0, l_result = []\<rparr>
        ''/ x /'' ['','']
       = Inr \<lparr>l_str = ''a: in / x /'', l_prev = Some ''/ x /'', l_toks = ['',''],
               l_key = ''a'', l_values = Some [''in'', ''/ x /''], l_depth = 0, l_result = []\<rparr>"
proof -
  have tests: "slashIsDivision ''b'' \<and> \<not> slashIsDivision ''in''"
    by (simp add: slashIsDivision_def divisionLookBehind_def isLookBehindChar_def
          keywordRegexLookBehind_def objectPrototypeKeys_def)
  have index: "indexOf ''a: b / x /'' ''/ x /'' = Some (length ''a: b '')"
    by simp
  have split: "strMatch '' x /'' = Some [''x'', ''/'']"
    by code_simp
  show ?thesis
    using tokenizer_slash_is_division_or_regex [where prev = "''b''" and tok = "''/ x /''"
        and v = "\<lparr>l_str = ''a: b / x /'', l_prev = Some ''b'', l_toks = [''/ x /'', '',''],
                  l_key = ''a'', l_values = Some [''b''], l_depth = 0, l_result = []\<rparr>"
        and pre = "''a: b ''" and post = "[]" and toks = "[''x'', ''/'']" and rest = "['','']"]
      tokenizer_slash_is_division_or_regex [where prev = "''in''" and tok = "''/ x /''"
        and v = "\<lparr>l_str = ''a: in / x /'', l_prev = Some ''in'', l_toks = [''/ x /'', '',''],
                  l_key = ''a'', l_values = Some [''in''], l_depth = 0, l_result = []\<rparr>"
        and rest = "['','']"]
      tests index split
    by (simp add: pushValue_def)
qed

end
